theory Spec2Isabelle
  imports Complex_Main
begin

section \<open>JavaScript values as the admin page sees them\<close>

text \<open>
  The page (\<^verbatim>\<open>src/app/admin/page.tsx\<close>) works on values of type \<^verbatim>\<open>any\<close>: the JSON
  rendering of Clarity values, the body of a status lookup, the wallet profile. They are
  modelled as JSON-shaped data. An object is the list of its own properties (the first
  binding of a key is the property); its prototype is \<^verbatim>\<open>Object.prototype\<close>.

  A JavaScript number is modelled as an exact rational or \<^verbatim>\<open>NaN\<close>. The infinities and
  the negative zero are outside the model, and so is the rounding of IEEE-754 doubles,
  except in the product behind the spending guarantee, which is a parameter.
\<close>

datatype jsnum = NaN | Num rat

datatype json =
    JUndefined
  | JNull
  | JBool bool
  | JNumber jsnum
  | JString string
  | JArray "json list"
  | JObject "(string \<times> json) list"

datatype error = TypeError | NetworkError | TimedOut | AmountError

text \<open>
  Built-in conversions whose result the page does not fix are parameters:
  \<^verbatim>\<open>StringToNumber\<close> (the parse behind \<^verbatim>\<open>Number(s)\<close>, total on strings), the rendering of
  a number that is not a small integer, and \<^verbatim>\<open>Date.prototype.toLocaleString\<close> on a
  timestamp in milliseconds (total: an invalid date renders as \<^verbatim>\<open>Invalid Date\<close>). So is
  the product of two doubles as the machine rounds it, \<open>product\<close>, used where the page
  rounds the result to an integer.
\<close>

record builtins =
  strToNum :: "string \<Rightarrow> jsnum"
  fracToString :: "rat \<Rightarrow> string"
  toLocaleString :: "jsnum \<Rightarrow> string"
  product :: "rat \<Rightarrow> rat \<Rightarrow> rat"

subsection \<open>Errors as values\<close>

definition bind_e :: "error + 'a \<Rightarrow> ('a \<Rightarrow> error + 'b) \<Rightarrow> error + 'b" where
  "bind_e m f = (case m of Inl e \<Rightarrow> Inl e | Inr x \<Rightarrow> f x)"

subsection \<open>Property access, optional chaining, nullish coalescing\<close>

definition nullish :: "json \<Rightarrow> bool" where
  "nullish v = (v = JUndefined \<or> v = JNull)"

text \<open>
  \<^verbatim>\<open>v[k]\<close> on a value that is not nullish, for a key \<open>k\<close> that no prototype defines
  (every key the page reads: \<^verbatim>\<open>value\<close>, the campaign fields, \<^verbatim>\<open>tx_status\<close>): the own
  property of an object, \<^verbatim>\<open>undefined\<close> otherwise.
\<close>

definition own_prop :: "json \<Rightarrow> string \<Rightarrow> json" where
  "own_prop v k = (case v of
      JObject kvs \<Rightarrow> (case map_of kvs k of Some x \<Rightarrow> x | None \<Rightarrow> JUndefined)
    | _ \<Rightarrow> JUndefined)"

text \<open>\<^verbatim>\<open>v.k\<close>: a TypeError on \<^verbatim>\<open>undefined\<close> and \<^verbatim>\<open>null\<close>.\<close>

definition get_prop :: "json \<Rightarrow> string \<Rightarrow> error + json" where
  "get_prop v k = (if nullish v then Inl TypeError else Inr (own_prop v k))"

text \<open>\<^verbatim>\<open>v?.k\<close>\<close>

definition opt_get :: "json \<Rightarrow> string \<Rightarrow> json" where
  "opt_get v k = (if nullish v then JUndefined else own_prop v k)"

text \<open>\<^verbatim>\<open>a ?? b\<close>\<close>

definition nullish_or :: "json \<Rightarrow> json \<Rightarrow> json" where
  "nullish_or a b = (if nullish a then b else a)"

subsection \<open>Conversions: \<^verbatim>\<open>String\<close>, \<^verbatim>\<open>Number\<close>, \<^verbatim>\<open>Boolean\<close>\<close>

definition is_digit :: "char \<Rightarrow> bool" where
  "is_digit c = (48 \<le> (of_char c :: nat) \<and> (of_char c :: nat) \<le> 57)"

definition digit_char :: "nat \<Rightarrow> char" where
  "digit_char n = ''0123456789'' ! n"

fun digits :: "nat \<Rightarrow> string" where
  "digits n = (if n < 10 then [digit_char n] else digits (n div 10) @ [digit_char (n mod 10)])"

declare digits.simps [simp del]

definition intToString :: "int \<Rightarrow> string" where
  "intToString i = (if i < 0 then CHR ''-'' # digits (nat (- i)) else digits (nat i))"

text \<open>
  \<^verbatim>\<open>Number::toString\<close>: decimal digits for an integer below \<open>10\<^sup>2\<^sup>1\<close> in magnitude; the
  other renderings (fractions, exponents) are left to the parameter.
\<close>

definition numberToString :: "builtins \<Rightarrow> jsnum \<Rightarrow> string" where
  "numberToString B x = (case x of
      NaN \<Rightarrow> ''NaN''
    | Num r \<Rightarrow> (if of_int \<lfloor>r\<rfloor> = r \<and> \<bar>r\<bar> < 10 ^ 21 then intToString \<lfloor>r\<rfloor>
                else fracToString B r))"

text \<open>
  \<^verbatim>\<open>String(v)\<close>. For an object or array this is \<^verbatim>\<open>ToPrimitive\<close>: the method
  \<^verbatim>\<open>toString\<close> is looked up on the value. An own property \<^verbatim>\<open>toString\<close> of a JSON object
  is data, never callable, and the inherited \<^verbatim>\<open>valueOf\<close> returns the object itself, so
  the conversion throws a TypeError; without it the result is \<^verbatim>\<open>[object Object]\<close>. An
  array joins its elements with commas, \<^verbatim>\<open>undefined\<close> and \<^verbatim>\<open>null\<close> rendered empty.
\<close>

fun toString :: "builtins \<Rightarrow> json \<Rightarrow> error + string"
  and joinElems :: "builtins \<Rightarrow> json list \<Rightarrow> error + string" where
  "toString B JUndefined = Inr ''undefined''"
| "toString B JNull = Inr ''null''"
| "toString B (JBool b) = Inr (if b then ''true'' else ''false'')"
| "toString B (JNumber n) = Inr (numberToString B n)"
| "toString B (JString s) = Inr s"
| "toString B (JArray xs) = joinElems B xs"
| "toString B (JObject kvs) =
     (if map_of kvs ''toString'' \<noteq> None then Inl TypeError else Inr ''[object Object]'')"
| "joinElems B [] = Inr ''''"
| "joinElems B (x # xs) =
     bind_e (if nullish x then Inr '''' else toString B x) (\<lambda>s.
       if xs = [] then Inr s
       else bind_e (joinElems B xs) (\<lambda>rest. Inr (s @ '','' @ rest)))"

text \<open>
  \<^verbatim>\<open>Number(v)\<close>. An object or array is first made primitive, with the same lookup of
  \<^verbatim>\<open>toString\<close> (the inherited \<^verbatim>\<open>valueOf\<close> is tried first and returns the object).
\<close>

definition toNumber :: "builtins \<Rightarrow> json \<Rightarrow> error + jsnum" where
  "toNumber B v = (case v of
      JUndefined \<Rightarrow> Inr NaN
    | JNull \<Rightarrow> Inr (Num 0)
    | JBool b \<Rightarrow> Inr (Num (if b then 1 else 0))
    | JNumber n \<Rightarrow> Inr n
    | JString s \<Rightarrow> Inr (strToNum B s)
    | _ \<Rightarrow> bind_e (toString B v) (\<lambda>s. Inr (strToNum B s)))"

text \<open>\<^verbatim>\<open>Boolean(v)\<close>, the truthiness of a value.\<close>

definition toBoolean :: "json \<Rightarrow> bool" where
  "toBoolean v = (case v of
      JUndefined \<Rightarrow> False
    | JNull \<Rightarrow> False
    | JBool b \<Rightarrow> b
    | JNumber n \<Rightarrow> (n \<noteq> NaN \<and> n \<noteq> Num 0)
    | JString s \<Rightarrow> s \<noteq> ''''
    | _ \<Rightarrow> True)"

text \<open>Division and multiplication by a non-zero constant; \<^verbatim>\<open>NaN\<close> propagates.\<close>

definition div_by :: "jsnum \<Rightarrow> rat \<Rightarrow> jsnum" where
  "div_by x k = (case x of NaN \<Rightarrow> NaN | Num a \<Rightarrow> Num (a / k))"

definition mul_by :: "jsnum \<Rightarrow> rat \<Rightarrow> jsnum" where
  "mul_by x k = (case x of NaN \<Rightarrow> NaN | Num a \<Rightarrow> Num (a * k))"

section \<open>The Chain Reader's decode\<close>

record Campaign =
  id_c :: nat
  title :: string
  description :: string
  goal :: jsnum
  total_c :: jsnum
  deadline :: jsnum
  owner :: json
  active :: bool
  successful :: bool
  withdrawn :: bool
  finalized :: bool

text \<open>
  \<^verbatim>\<open>const jNum = (cv: any) => Number(cv?.value ?? 0)\<close>,
  \<^verbatim>\<open>const jStr = (cv: any) => String(cv?.value ?? "")\<close>,
  \<^verbatim>\<open>const jBool = (cv: any) => Boolean(cv?.value ?? false)\<close>
\<close>

definition jNum :: "builtins \<Rightarrow> json \<Rightarrow> error + jsnum" where
  "jNum B cv = toNumber B (nullish_or (opt_get cv ''value'') (JNumber (Num 0)))"

definition jStr :: "builtins \<Rightarrow> json \<Rightarrow> error + string" where
  "jStr B cv = toString B (nullish_or (opt_get cv ''value'') (JString ''''))"

definition jBool :: "json \<Rightarrow> bool" where
  "jBool cv = toBoolean (nullish_or (opt_get cv ''value'') (JBool False))"

text \<open>\<^verbatim>\<open>a || b\<close> on a string and on any value.\<close>

definition str_or :: "string \<Rightarrow> string \<Rightarrow> string" where
  "str_or a b = (if a = '''' then b else a)"

definition val_or :: "json \<Rightarrow> json \<Rightarrow> json" where
  "val_or a b = (if toBoolean a then a else b)"

text \<open>\<^verbatim>\<open>const d = json?.value?.value ?? {}\<close>\<close>

definition rawStruct :: "json \<Rightarrow> json" where
  "rawStruct j = nullish_or (opt_get (opt_get j ''value'') ''value'') (JObject [])"

text \<open>
  \<^verbatim>\<open>parseCampaign(json, id)\<close>. The fallback of title and description is written in single
  quotes in the source, so it is the text \<^verbatim>\<open>Campaign ${id}\<close> itself. The fields are
  evaluated in the order of the object literal; the first conversion that throws ends
  the call.
\<close>

definition parseCampaign :: "builtins \<Rightarrow> json \<Rightarrow> nat \<Rightarrow> error + Campaign" where
  "parseCampaign B j i =
    (let d = rawStruct j in
     bind_e (get_prop d ''title'') (\<lambda>f_title.
     bind_e (jStr B f_title) (\<lambda>s_title.
     bind_e (get_prop d ''description'') (\<lambda>f_descr.
     bind_e (jStr B f_descr) (\<lambda>s_descr.
     bind_e (get_prop d ''goal'') (\<lambda>f_goal.
     bind_e (jNum B f_goal) (\<lambda>n_goal.
     bind_e (get_prop d ''total'') (\<lambda>f_total.
     bind_e (jNum B f_total) (\<lambda>n_total.
     bind_e (get_prop d ''deadline'') (\<lambda>f_deadline.
     bind_e (jNum B f_deadline) (\<lambda>n_deadline.
     bind_e (get_prop d ''owner'') (\<lambda>f_owner.
     bind_e (get_prop d ''active'') (\<lambda>f_active.
     bind_e (get_prop d ''successful'') (\<lambda>f_successful.
     bind_e (get_prop d ''withdrawn'') (\<lambda>f_withdrawn.
     bind_e (get_prop d ''finalized'') (\<lambda>f_finalized.
       Inr \<lparr> id_c = i,
             title = str_or s_title ''Campaign ${id}'',
             description = str_or s_descr ''Campaign ${id}'',
             goal = div_by n_goal 1000000,
             total_c = div_by n_total 1000000,
             deadline = n_deadline,
             owner = val_or (opt_get f_owner ''value'') (JString ''''),
             active = jBool f_active,
             successful = jBool f_successful,
             withdrawn = jBool f_withdrawn,
             finalized = jBool f_finalized \<rparr>))))))))))))))))"

text \<open>\<^verbatim>\<open>d.k?.value\<close> for the raw structure \<open>d\<close> of a response: the payload of field \<open>k\<close>.\<close>

definition fieldValue :: "json \<Rightarrow> string \<Rightarrow> json" where
  "fieldValue j k = opt_get (own_prop (rawStruct j) k) ''value''"

text \<open>Field \<open>k\<close> is absent from the raw structure: \<^verbatim>\<open>d.k\<close> is \<^verbatim>\<open>undefined\<close>.\<close>

definition absent :: "json \<Rightarrow> string \<Rightarrow> bool" where
  "absent j k = (own_prop (rawStruct j) k = JUndefined)"

text \<open>
  The values that \<^verbatim>\<open>String\<close> and \<^verbatim>\<open>Number\<close> convert without throwing: no object with
  an own property \<^verbatim>\<open>toString\<close>, directly or as an element of nested arrays.
\<close>

fun coercible :: "json \<Rightarrow> bool" and coercible_list :: "json list \<Rightarrow> bool" where
  "coercible (JObject kvs) = (map_of kvs ''toString'' = None)"
| "coercible (JArray xs) = coercible_list xs"
| "coercible _ = True"
| "coercible_list [] = True"
| "coercible_list (x # xs) = (coercible x \<and> coercible_list xs)"

section \<open>The Deadline Presenter\<close>

text \<open>Comparison and arithmetic of numbers; a comparison with \<^verbatim>\<open>NaN\<close> is false.\<close>

definition truthy_num :: "jsnum \<Rightarrow> bool" where
  "truthy_num x = (x \<noteq> NaN \<and> x \<noteq> Num 0)"

definition js_le :: "jsnum \<Rightarrow> jsnum \<Rightarrow> bool" where
  "js_le x y = (case x of NaN \<Rightarrow> False | Num a \<Rightarrow> (case y of NaN \<Rightarrow> False | Num b \<Rightarrow> a \<le> b))"

definition js_ge :: "jsnum \<Rightarrow> jsnum \<Rightarrow> bool" where
  "js_ge x y = js_le y x"

definition js_gt :: "jsnum \<Rightarrow> jsnum \<Rightarrow> bool" where
  "js_gt x y = (case x of NaN \<Rightarrow> False | Num a \<Rightarrow> (case y of NaN \<Rightarrow> False | Num b \<Rightarrow> b < a))"

definition js_add :: "jsnum \<Rightarrow> jsnum \<Rightarrow> jsnum" where
  "js_add x y = (case x of NaN \<Rightarrow> NaN | Num a \<Rightarrow> (case y of NaN \<Rightarrow> NaN | Num b \<Rightarrow> Num (a + b)))"

definition js_sub :: "jsnum \<Rightarrow> jsnum \<Rightarrow> jsnum" where
  "js_sub x y = (case x of NaN \<Rightarrow> NaN | Num a \<Rightarrow> (case y of NaN \<Rightarrow> NaN | Num b \<Rightarrow> Num (a - b)))"

text \<open>
  \<^verbatim>\<open>formatDeadlineDisplay(deadline, currentBlockHeight)\<close>. The function reads the clock
  (\<^verbatim>\<open>Date.now()\<close>, the argument \<open>now\<close>, in milliseconds) and the locale's date format
  (\<open>toLocaleString B\<close>, applied to the milliseconds given to \<^verbatim>\<open>new Date\<close>); it writes
  nothing. Neither built-in throws, so the \<^verbatim>\<open>catch\<close> of the source is never entered.
\<close>

definition unixThreshold :: jsnum where
  "unixThreshold = Num 1000000000"

definition formatDeadlineDisplay :: "builtins \<Rightarrow> jsnum \<Rightarrow> jsnum \<Rightarrow> jsnum option \<Rightarrow> string" where
  "formatDeadlineDisplay B now dl currentBlockHeight =
    (if \<not> truthy_num dl \<or> js_le dl (Num 0) then ''No deadline''
     else if js_gt dl unixThreshold then toLocaleString B (mul_by dl 1000)
     else (case currentBlockHeight of
        None \<Rightarrow> ''Block #'' @ numberToString B dl
      | Some h \<Rightarrow>
          if truthy_num h \<and> js_ge dl h then
            (let blocksRemaining = js_sub dl h;
                 estMs = mul_by (mul_by (mul_by blocksRemaining 10) 60) 1000;
                 est = js_add now estMs
             in toLocaleString B est @ '' (est, block '' @ numberToString B dl @ '')'')
          else ''Block #'' @ numberToString B dl))"

section \<open>Page state, the outside world and the trace of effects\<close>

record GlobalStats =
  totalRaised :: jsnum
  totalContributors :: jsnum
  activeCampaigns :: jsnum
  totalCampaigns :: jsnum

text \<open>
  The snapshot of the wallet session held by the page: the value of
  \<^verbatim>\<open>user.profile.stxAddress.testnet\<close> (which may be \<^verbatim>\<open>undefined\<close>).
\<close>

record Session =
  stxAddressTestnet :: json

record page =
  user :: "Session option"
  campaigns :: "Campaign list"
  globalStats :: GlobalStats
  loading :: bool
  closingCampaign :: "nat option"
  currentBlockHeight :: "jsnum option"

text \<open>
  The answer of one read-only call: the promise rejects (a network failure), or it is
  fulfilled with a Clarity value, represented by what \<^verbatim>\<open>cvToJSON\<close> makes of it (\<open>Inl\<close>
  when \<^verbatim>\<open>cvToJSON\<close> throws).
\<close>

datatype call_result = Rejected | Fulfilled "error + json"

record chain =
  getTotalStx :: call_result
  getTotalContributors :: call_result
  getActiveCampaigns :: call_result
  getCampaignCount :: call_result
  getCampaign :: "nat \<Rightarrow> call_result"

text \<open>
  The condition that the contract transfers at most \<open>amount\<close> micro-STX
  (\<^verbatim>\<open>FungibleConditionCode.LessEqual\<close> on the contract's STX).
\<close>

datatype post_condition = ContractSTXLessEqual string

record contract_call =
  functionName :: string
  functionArgs :: "nat list"
  postConditionModeAllow :: bool
  postConditions :: "post_condition list"

text \<open>Everything the page does to the outside, in the order it happens.\<close>

datatype event =
    ReadOnlyCall string "nat list"
  | ConsoleError string error
  | ConsoleWarn string error
  | ConsoleLog string
  | Alert string
  | Confirm string
  | ContractCall contract_call
  | StatusCheck string

section \<open>The Chain Reader's refresh\<close>

text \<open>\<^verbatim>\<open>Number(cvToJSON(r).value)\<close>\<close>

definition statNumber :: "builtins \<Rightarrow> error + json \<Rightarrow> error + jsnum" where
  "statNumber B cv = bind_e cv (\<lambda>j. bind_e (get_prop j ''value'') (toNumber B))"

text \<open>\<^verbatim>\<open>await Promise.all(promises)\<close>: the values when every promise is fulfilled.\<close>

fun fulfilled :: "call_result list \<Rightarrow> (error + json) list option" where
  "fulfilled [] = Some []"
| "fulfilled (Rejected # rs) = None"
| "fulfilled (Fulfilled v # rs) = (case fulfilled rs of None \<Rightarrow> None | Some vs \<Rightarrow> Some (v # vs))"

text \<open>The argument of \<^verbatim>\<open>setGlobalStats\<close>, its fields evaluated in order.\<close>

definition readStats :: "builtins \<Rightarrow> (error + json) list \<Rightarrow> error + GlobalStats" where
  "readStats B vs =
     bind_e (statNumber B (vs ! 0)) (\<lambda>n_stx.
     bind_e (statNumber B (vs ! 1)) (\<lambda>n_contributors.
     bind_e (statNumber B (vs ! 2)) (\<lambda>n_active.
     bind_e (statNumber B (vs ! 3)) (\<lambda>n_count.
       Inr \<lparr> totalRaised = div_by n_stx 1000000,
             totalContributors = n_contributors,
             activeCampaigns = n_active,
             totalCampaigns = n_count \<rparr>))))"

text \<open>The number of rounds of \<^verbatim>\<open>for (let i = 0; i < count; i++)\<close>.\<close>

definition callCount :: "jsnum \<Rightarrow> nat" where
  "callCount count = (case count of NaN \<Rightarrow> 0 | Num r \<Rightarrow> nat \<lceil>r\<rceil>)"

text \<open>The body of the \<^verbatim>\<open>try\<close> inside \<^verbatim>\<open>map\<close>: \<^verbatim>\<open>parseCampaign(cvToJSON(result), index)\<close>.\<close>

definition decodeCampaign :: "builtins \<Rightarrow> error + json \<Rightarrow> nat \<Rightarrow> error + Campaign" where
  "decodeCampaign B cv index = bind_e cv (\<lambda>j. parseCampaign B j index)"

definition parseWarning :: "nat \<Rightarrow> error \<Rightarrow> event" where
  "parseWarning index e = ConsoleWarn (''Failed to parse campaign '' @ digits index @ '':'') e"

text \<open>One callback of \<^verbatim>\<open>map\<close>: the campaign or \<^verbatim>\<open>null\<close>, and what it logs.\<close>

definition tryParse :: "builtins \<Rightarrow> (error + json) \<times> nat \<Rightarrow> Campaign option \<times> event list" where
  "tryParse B ri = (case decodeCampaign B (fst ri) (snd ri) of
      Inr parsed \<Rightarrow> (Some parsed, [])
    | Inl e \<Rightarrow> (None, [parseWarning (snd ri) e]))"

text \<open>
  \<^verbatim>\<open>campaignResults.map(...).filter((campaign) => campaign !== null)\<close>: the campaigns
  that were decoded, in order, and the warnings logged on the way.
\<close>

definition decodeBatch :: "builtins \<Rightarrow> (error + json) list \<Rightarrow> Campaign list \<times> event list" where
  "decodeBatch B campaignResults =
    (let results = map (tryParse B) (zip campaignResults [0..<length campaignResults])
     in (List.map_filter fst results, concat (map snd results)))"

definition statCalls :: "event list" where
  "statCalls = [ReadOnlyCall ''get-total-stx'' [], ReadOnlyCall ''get-total-contributors'' [],
                ReadOnlyCall ''get-active-campaigns'' [], ReadOnlyCall ''get-campaign-count'' []]"

definition campaignCalls :: "nat \<Rightarrow> event list" where
  "campaignCalls n = map (\<lambda>i. ReadOnlyCall ''get-campaign'' [i]) [0..<n]"

definition fetchError :: "error \<Rightarrow> event" where
  "fetchError e = ConsoleError ''Error fetching blockchain data:'' e"

text \<open>
  \<^verbatim>\<open>fetchAllData()\<close>. All four statistic calls are issued before the first is awaited,
  and all campaign calls before \<^verbatim>\<open>Promise.all\<close> joins them; whatever is thrown inside
  the \<^verbatim>\<open>try\<close> is logged by the \<^verbatim>\<open>catch\<close>, and \<^verbatim>\<open>finally\<close> clears the loading flag.
\<close>

definition fetchAllData :: "builtins \<Rightarrow> chain \<Rightarrow> page \<Rightarrow> page \<times> event list" where
  "fetchAllData B ch st =
    (let st1 = st\<lparr>loading := True\<rparr> in
     case fulfilled [getTotalStx ch, getTotalContributors ch, getActiveCampaigns ch, getCampaignCount ch] of
       None \<Rightarrow> (st1\<lparr>loading := False\<rparr>, statCalls @ [fetchError NetworkError])
     | Some vs \<Rightarrow>
        (case readStats B vs of
           Inl e \<Rightarrow> (st1\<lparr>loading := False\<rparr>, statCalls @ [fetchError e])
         | Inr gs \<Rightarrow>
            (let st2 = st1\<lparr>globalStats := gs\<rparr> in
             case statNumber B (vs ! 3) of
               Inl e \<Rightarrow> (st2\<lparr>loading := False\<rparr>, statCalls @ [fetchError e])
             | Inr count \<Rightarrow>
                (let n = callCount count in
                 case fulfilled (map (getCampaign ch) [0..<n]) of
                   None \<Rightarrow> (st2\<lparr>loading := False\<rparr>,
                             statCalls @ campaignCalls n @ [fetchError NetworkError])
                 | Some campaignResults \<Rightarrow>
                    (let (fetchedCampaigns, warnings) = decodeBatch B campaignResults
                     in (st2\<lparr>campaigns := fetchedCampaigns, loading := False\<rparr>,
                         statCalls @ campaignCalls n @ warnings))))))"

section \<open>The Transaction Submitter\<close>

text \<open>
  \<^verbatim>\<open>a === b\<close>. Two objects or arrays are equal only when they are the same object; the
  values compared here come from different places (a chain response, the wallet profile,
  a literal), so they never are.
\<close>

fun strict_eq :: "json \<Rightarrow> json \<Rightarrow> bool" where
  "strict_eq JUndefined JUndefined = True"
| "strict_eq JNull JNull = True"
| "strict_eq (JBool a) (JBool b) = (a = b)"
| "strict_eq (JNumber a) (JNumber b) = (a \<noteq> NaN \<and> a = b)"
| "strict_eq (JString a) (JString b) = (a = b)"
| "strict_eq _ _ = False"

subsection \<open>Polling the transaction status\<close>

text \<open>
  The answer of one status lookup: \<^verbatim>\<open>fetch\<close> or \<^verbatim>\<open>response.json()\<close> rejects, or the
  parsed body \<^verbatim>\<open>data\<close> arrives.
\<close>

datatype status_response = FetchFails | Body json

text \<open>
  One lookup as the endpoint serves it: the answer, and the time in milliseconds from
  the \<^verbatim>\<open>fetch\<close> to the moment the callback goes on after its two \<^verbatim>\<open>await\<close>s. Every
  lookup is answered (or fails) after a finite time.
\<close>

record lookup =
  answer :: status_response
  latency :: nat

definition maxRetries :: nat where
  "maxRetries = 15"

definition pollInterval :: nat where
  "pollInterval = 5000"

definition terminal :: "json \<Rightarrow> bool" where
  "terminal s = (strict_eq s (JString ''success'') \<or> strict_eq s (JString ''failed''))"

text \<open>
  \<^verbatim>\<open>setInterval(callback, 5000)\<close> fires for the \<open>k\<close>-th time (counting from 0) at
  \<open>(k + 1) * 5000\<close> ms, whether or not the earlier callbacks have finished: the timer
  does not wait for the promise of an \<^verbatim>\<open>async\<close> callback.
\<close>

definition firingTime :: "nat \<Rightarrow> nat" where
  "firingTime k = Suc k * pollInterval"

text \<open>
  The rest of the callback, once its lookup is answered, with the counter \<^verbatim>\<open>retries\<close>
  as it stands then: how the promise is settled (\<open>Inr ()\<close> resolved, \<open>Inl e\<close> rejected
  with \<open>e\<close>; the interval is cleared in the same step), or \<open>None\<close> when the callback
  only increments \<^verbatim>\<open>retries\<close>.
\<close>

definition afterLookup :: "status_response \<Rightarrow> nat \<Rightarrow> (error + unit) option" where
  "afterLookup r retries =
    (case r of
       FetchFails \<Rightarrow> Some (Inl NetworkError)
     | Body data \<Rightarrow>
        (case get_prop data ''tx_status'' of
           Inl e \<Rightarrow> Some (Inl e)
         | Inr tx_status \<Rightarrow>
            if terminal tx_status then Some (Inr ())
            else if retries \<ge> maxRetries then Some (Inl TimedOut)
            else None))"

text \<open>
  The lookups in flight are kept in the order they were issued, each with the time its
  answer is due. The next answer to be handled is the one due first (the one issued
  first among equals).
\<close>

fun earliest :: "(nat \<times> status_response) list \<Rightarrow> (nat \<times> status_response) option" where
  "earliest [] = None"
| "earliest (x # xs) =
     (case earliest xs of
        None \<Rightarrow> Some x
      | Some y \<Rightarrow> if fst y < fst x then Some y else Some x)"

text \<open>
  The event loop of \<^verbatim>\<open>waitForTransaction\<close> until the promise settles. \<open>k\<close> firings of the
  timer have happened, the lookups of \<open>inflight\<close> are unanswered, \<^verbatim>\<open>retries\<close> is the
  counter. If an answer is due before the next firing (or at that very instant), the
  callback it belongs to goes on: it settles the promise, or increments \<^verbatim>\<open>retries\<close>.
  Otherwise the timer fires and issues the next lookup. The result is how the promise
  settles, the number of lookups issued by then, and the number of answers handled.
  Callbacks still in flight when the promise settles change nothing: the promise is
  settled and the interval cleared.
\<close>

function run :: "(nat \<Rightarrow> lookup) \<Rightarrow> nat \<Rightarrow> (nat \<times> status_response) list \<Rightarrow> nat
    \<Rightarrow> (error + unit) \<times> nat \<times> nat" where
  "run endpoint k inflight retries =
    (case earliest inflight of
       None \<Rightarrow>
         run endpoint (Suc k)
           (inflight @ [(firingTime k + latency (endpoint k), answer (endpoint k))]) retries
     | Some due \<Rightarrow>
         if fst due \<le> firingTime k then
           (case afterLookup (snd due) retries of
              Some outcome \<Rightarrow> (outcome, k, Suc retries)
            | None \<Rightarrow> run endpoint k (remove1 due inflight) (Suc retries))
         else
           run endpoint (Suc k)
             (inflight @ [(firingTime k + latency (endpoint k), answer (endpoint k))]) retries)"
  by pat_completeness auto
termination
proof -
  have snoc: "\<exists>d'. earliest (fl @ [x]) = Some d' \<and> fst d' \<le> fst d"
    if "earliest fl = Some d" for fl d x
    using that by (induction fl arbitrary: d) (fastforce split: option.splits if_splits)+
  have more: "retries < maxRetries" if "afterLookup r retries = None" for r retries
    using that
    by (auto simp: afterLookup_def split: status_response.splits sum.splits if_splits)
  show ?thesis
  proof (relation "measures
      [\<lambda>(endpoint, k, inflight, retries). Suc maxRetries - retries,
       \<lambda>(endpoint, k, inflight, retries).
          (case earliest inflight of
             None \<Rightarrow> Suc (latency (endpoint k))
           | Some d \<Rightarrow> fst d - firingTime k)]", goal_cases)
    case 1
    show ?case by simp
  next
    case (2 endpoint k inflight retries)
    then have "inflight = []" by (cases inflight) (auto split: option.splits if_splits)
    then show ?case by (simp add: firingTime_def)
  next
    case (3 endpoint k inflight retries due)
    then show ?case using more [of "snd due" retries] by simp
  next
    case (4 endpoint k inflight retries due)
    from snoc [OF 4(1)] obtain d' where
      "earliest (inflight @ [(firingTime k + latency (endpoint k), answer (endpoint k))]) = Some d'"
      "fst d' \<le> fst due" by blast
    with 4 show ?case by (simp add: firingTime_def pollInterval_def)
  qed
qed

declare run.simps [simp del]

definition waitForTransaction :: "(nat \<Rightarrow> lookup) \<Rightarrow> (error + unit) \<times> nat" where
  "waitForTransaction endpoint =
     (case run endpoint 0 [] 0 of (outcome, issued, handled) \<Rightarrow> (outcome, issued))"

text \<open>The number of answers the callbacks have handled when the promise settles.\<close>

definition answersHandled :: "(nat \<Rightarrow> lookup) \<Rightarrow> nat" where
  "answersHandled endpoint = snd (snd (run endpoint 0 [] 0))"

subsection \<open>Closing a campaign\<close>

text \<open>\<^verbatim>\<open>Math.round\<close> (halves go up) and \<^verbatim>\<open>Math.max\<close>.\<close>

definition js_round :: "jsnum \<Rightarrow> jsnum" where
  "js_round x = (case x of NaN \<Rightarrow> NaN | Num r \<Rightarrow> Num (of_int \<lfloor>r + 1 / 2\<rfloor>))"

definition js_max :: "jsnum \<Rightarrow> jsnum \<Rightarrow> jsnum" where
  "js_max x y = (case x of NaN \<Rightarrow> NaN | Num a \<Rightarrow> (case y of NaN \<Rightarrow> NaN | Num b \<Rightarrow> Num (max a b)))"

text \<open>\<^verbatim>\<open>x * y\<close> on doubles: the machine's product; \<^verbatim>\<open>NaN\<close> propagates.\<close>

definition js_times :: "builtins \<Rightarrow> jsnum \<Rightarrow> jsnum \<Rightarrow> jsnum" where
  "js_times B x y =
     (case x of NaN \<Rightarrow> NaN | Num a \<Rightarrow> (case y of NaN \<Rightarrow> NaN | Num b \<Rightarrow> Num (product B a b)))"

text \<open>
  What the user and the outside answer during one \<^verbatim>\<open>handleCloseCampaign\<close>: the
  \<^verbatim>\<open>confirm\<close> dialog, the wallet (\<^verbatim>\<open>openContractCall\<close> throws, or later calls
  \<^verbatim>\<open>onCancel\<close>, or \<^verbatim>\<open>onFinish\<close> with a transaction id), the status endpoint and the
  chain as the refresh will read it.
\<close>

datatype wallet_outcome = WalletThrows error | WalletCancelled | WalletFinished string

record world =
  confirmAnswer :: bool
  wallet :: wallet_outcome
  txStatus :: "nat \<Rightarrow> lookup"
  chainView :: chain

definition broadcastNotice :: string where
  "broadcastNotice = ''Transaction broadcasted! Waiting for confirmation...''"

definition successNotice :: string where
  "successNotice = ''Campaign finalized successfully!''"

definition failureNotice :: string where
  "failureNotice = ''Transaction confirmation failed. Please check the explorer.''"

text \<open>The \<^verbatim>\<open>onFinish\<close> callback given to \<^verbatim>\<open>openContractCall\<close>.\<close>

definition onFinish :: "builtins \<Rightarrow> world \<Rightarrow> page \<Rightarrow> string \<Rightarrow> page \<times> event list" where
  "onFinish B W st txId =
    (case waitForTransaction (txStatus W) of
       (Inr u, checks) \<Rightarrow>
         (let (st', refresh) = fetchAllData B (chainView W) st
          in (st', [Alert broadcastNotice] @ replicate checks (StatusCheck txId) @ refresh
                   @ [Alert successNotice]))
     | (Inl e, checks) \<Rightarrow>
         (st, [Alert broadcastNotice] @ replicate checks (StatusCheck txId)
              @ [ConsoleError ''Transaction confirmation failed:'' e, Alert failureNotice]))"

text \<open>
  \<^verbatim>\<open>makeContractSTXPostCondition(CONTRACT_ADDRESS, CONTRACT_NAME,
  FungibleConditionCode.LessEqual, amount)\<close>. The library reads the amount as an
  integer: a string of decimal digits gives the condition; \<^verbatim>\<open>NaN\<close> and the exponent
  notation that \<^verbatim>\<open>toString\<close> uses from \<open>10\<^sup>2\<^sup>1\<close> on make it throw. The page gives it
  no other string: the amount is the rendering of \<^verbatim>\<open>Math.max(0, Math.round(...))\<close>.
\<close>

definition makeContractSTXPostCondition :: "string \<Rightarrow> error + post_condition" where
  "makeContractSTXPostCondition amount =
     (if list_all is_digit amount then Inr (ContractSTXLessEqual amount) else Inl AmountError)"

text \<open>
  The call built inside the \<^verbatim>\<open>try\<close> of \<^verbatim>\<open>handleCloseCampaign\<close>, or what is thrown
  while it is built.
\<close>

definition buildCall :: "builtins \<Rightarrow> Campaign \<Rightarrow> string \<Rightarrow> nat \<Rightarrow> error + contract_call" where
  "buildCall B campaign fn campaignId =
    (let isWithdraw = (fn = ''withdraw-funds'');
         withdrawAmountMicro =
           (if isWithdraw
            then js_max (Num 0) (js_round (js_times B (total_c campaign) (Num 1000000)))
            else Num 0)
     in bind_e
          (if isWithdraw
           then bind_e (makeContractSTXPostCondition (numberToString B withdrawAmountMicro))
                  (\<lambda>guarantee. Inr [guarantee])
           else Inr [])
          (\<lambda>conditions.
             Inr \<lparr> functionName = fn,
                   functionArgs = [campaignId],
                   postConditionModeAllow = isWithdraw,
                   postConditions = conditions \<rparr>))"

definition withdrawPrompt :: string where
  "withdrawPrompt = ''This campaign has reached its goal. Are you sure you want to withdraw the funds and close it?''"

definition refundPrompt :: string where
  "refundPrompt = ''This campaign has not reached its goal. Are you sure you want to close it so contributors can get refunds?''"

text \<open>
  \<^verbatim>\<open>handleCloseCampaign(campaignId)\<close>, with the callbacks of the wallet run to their end.
  What is thrown inside the \<^verbatim>\<open>try\<close>, by the library while the call is built or by the
  wallet, is logged and shown by the \<^verbatim>\<open>catch\<close>. The \<^verbatim>\<open>finally\<close> clears
  \<^verbatim>\<open>closingCampaign\<close> on every path that set it.
\<close>

definition handleCloseCampaign :: "builtins \<Rightarrow> world \<Rightarrow> page \<Rightarrow> nat \<Rightarrow> page \<times> event list" where
  "handleCloseCampaign B W st campaignId =
    (case user st of
       None \<Rightarrow> (st, [Alert ''Please connect your wallet first''])
     | Some u \<Rightarrow>
        (case find (\<lambda>c. id_c c = campaignId) (campaigns st) of
           None \<Rightarrow> (st, [])
         | Some campaign \<Rightarrow>
            if \<not> strict_eq (owner campaign) (stxAddressTestnet u)
            then (st, [Alert ''Only the campaign owner can finalize this campaign''])
            else
              (let goalReached = js_ge (total_c campaign) (goal campaign);
                   fn = (if goalReached then ''withdraw-funds'' else ''finalize-failure'');
                   confirmationMessage = (if goalReached then withdrawPrompt else refundPrompt)
               in if \<not> confirmAnswer W then (st, [Confirm confirmationMessage])
                  else
                    (let st1 = st\<lparr>closingCampaign := Some campaignId\<rparr>;
                         st2 = st1\<lparr>closingCampaign := None\<rparr>
                     in case buildCall B campaign fn campaignId of
                          Inl e \<Rightarrow>
                            (st2, [Confirm confirmationMessage,
                                   ConsoleError ''Failed to finalize campaign:'' e,
                                   Alert ''Failed to finalize campaign. Please try again.''])
                        | Inr call \<Rightarrow>
                           (case wallet W of
                              WalletThrows e \<Rightarrow>
                                (st2, [Confirm confirmationMessage, ContractCall call,
                                       ConsoleError ''Failed to finalize campaign:'' e,
                                       Alert ''Failed to finalize campaign. Please try again.''])
                            | WalletCancelled \<Rightarrow>
                                (st2, [Confirm confirmationMessage, ContractCall call,
                                       ConsoleLog ''Campaign finalization cancelled''])
                            | WalletFinished txId \<Rightarrow>
                                (let (st3, evs) = onFinish B W st2 txId
                                 in (st3, [Confirm confirmationMessage, ContractCall call]
                                          @ evs)))))))"

text \<open>The events that reach the network or the wallet.\<close>

fun outbound :: "event \<Rightarrow> bool" where
  "outbound (ReadOnlyCall f args) = True"
| "outbound (ContractCall c) = True"
| "outbound (StatusCheck t) = True"
| "outbound _ = False"

text \<open>The number of refreshes in a trace: every \<^verbatim>\<open>fetchAllData\<close> asks for the total once.\<close>

definition refreshCount :: "event list \<Rightarrow> nat" where
  "refreshCount evs = count_list evs (ReadOnlyCall ''get-total-stx'' [])"

text \<open>The contract calls handed to the wallet.\<close>

fun submitted :: "event list \<Rightarrow> contract_call list" where
  "submitted [] = []"
| "submitted (ContractCall c # evs) = c # submitted evs"
| "submitted (e # evs) = submitted evs"

text \<open>A lookup that answers with a status that is neither \<^verbatim>\<open>success\<close> nor \<^verbatim>\<open>failed\<close>.\<close>

definition pendingResponse :: "status_response \<Rightarrow> bool" where
  "pendingResponse r = (case r of
      FetchFails \<Rightarrow> False
    | Body data \<Rightarrow> \<not> nullish data \<and> \<not> terminal (own_prop data ''tx_status''))"

section \<open>Notions used to state the properties\<close>

text \<open>The five payloads that \<^verbatim>\<open>parseCampaign\<close> converts can all be converted.\<close>

definition convertible :: "json \<Rightarrow> bool" where
  "convertible j =
    (coercible (fieldValue j ''title'') \<and> coercible (fieldValue j ''description'') \<and>
     coercible (fieldValue j ''goal'') \<and> coercible (fieldValue j ''total'') \<and>
     coercible (fieldValue j ''deadline''))"

text \<open>The truthiness of flag \<open>k\<close> in the raw structure.\<close>

definition rawFlag :: "json \<Rightarrow> string \<Rightarrow> bool" where
  "rawFlag j k = jBool (own_prop (rawStruct j) k)"

text \<open>
  What a refresh reads before it asks for the campaigns: the statistics and the number of
  campaign calls, when the four statistic calls answer and their values convert.
\<close>

definition statsRead :: "builtins \<Rightarrow> chain \<Rightarrow> (GlobalStats \<times> nat) option" where
  "statsRead B ch =
    (case fulfilled [getTotalStx ch, getTotalContributors ch, getActiveCampaigns ch, getCampaignCount ch] of
       None \<Rightarrow> None
     | Some vs \<Rightarrow>
        (case readStats B vs of
           Inl e \<Rightarrow> None
         | Inr gs \<Rightarrow>
            (case statNumber B (vs ! 3) of
               Inl e \<Rightarrow> None
             | Inr count \<Rightarrow> Some (gs, callCount count))))"

text \<open>
  The micro amount of a total as the page computes it, \<^verbatim>\<open>campaign.total * 1_000_000\<close>,
  and the totals whose micro amount is one a chain amount gives: not negative, and
  below \<open>10\<^sup>2\<^sup>1\<close> once rounded.
\<close>

definition microAmount :: "builtins \<Rightarrow> jsnum \<Rightarrow> rat" where
  "microAmount B x = (case x of NaN \<Rightarrow> 0 | Num t \<Rightarrow> product B t 1000000)"

definition chainAmount :: "builtins \<Rightarrow> jsnum \<Rightarrow> bool" where
  "chainAmount B x = (0 \<le> microAmount B x \<and> round (microAmount B x) < 10 ^ 21)"

section \<open>Sample inputs\<close>

text \<open>
  An instance of the built-ins for evaluating the page at concrete inputs. Its
  \<open>strToNum\<close> reads a string of decimal digits (and the empty string) as
  \<^verbatim>\<open>StringToNumber\<close> does; its date rendering shows the milliseconds; its product is
  the exact one, which is the machine's wherever the exact product is a double.
\<close>

definition digit_val :: "char \<Rightarrow> nat" where
  "digit_val c = of_char c - 48"

definition decimalToNum :: "string \<Rightarrow> jsnum" where
  "decimalToNum s =
     (if list_all is_digit s then Num (of_nat (foldl (\<lambda>a c. 10 * a + digit_val c) 0 s)) else NaN)"

definition sampleBuiltins :: builtins where
  "sampleBuiltins = \<lparr> strToNum = decimalToNum,
                      fracToString = (\<lambda>r. ''fraction''),
                      toLocaleString = (\<lambda>t. ''date '' @ (case t of NaN \<Rightarrow> ''Invalid Date''
                                                          | Num ms \<Rightarrow> intToString \<lfloor>ms\<rfloor>)),
                      product = (\<lambda>a b. a * b) \<rparr>"

text \<open>The JSON of a Clarity unsigned integer, boolean and principal.\<close>

definition cvUInt :: "string \<Rightarrow> json" where
  "cvUInt s = JObject [(''type'', JString ''uint''), (''value'', JString s)]"

definition cvBool :: "bool \<Rightarrow> json" where
  "cvBool b = JObject [(''type'', JString ''bool''), (''value'', JBool b)]"

definition cvPrincipal :: "string \<Rightarrow> json" where
  "cvPrincipal s = JObject [(''type'', JString ''principal''), (''value'', JString s)]"

text \<open>The JSON of \<^verbatim>\<open>(some (tuple ...))\<close> with the given fields.\<close>

definition cvSomeTuple :: "(string \<times> json) list \<Rightarrow> json" where
  "cvSomeTuple kvs =
     JObject [(''type'', JString ''(optional (tuple))''),
              (''value'', JObject [(''type'', JString ''(tuple)''), (''value'', JObject kvs)])]"

definition txBody :: "string \<Rightarrow> json" where
  "txBody status = JObject [(''tx_id'', JString ''0xabc''), (''tx_status'', JString status)]"

text \<open>
  A status endpoint that answers \<^verbatim>\<open>pending\<close> for ever and one that answers \<^verbatim>\<open>failed\<close>,
  each after 0.3 s; and one that answers \<^verbatim>\<open>pending\<close> for ever after 6 s.
\<close>

definition alwaysPending :: "nat \<Rightarrow> lookup" where
  "alwaysPending n = \<lparr> answer = Body (txBody ''pending''), latency = 300 \<rparr>"

definition alwaysFailed :: "nat \<Rightarrow> lookup" where
  "alwaysFailed n = \<lparr> answer = Body (txBody ''failed''), latency = 300 \<rparr>"

definition slowPending :: "nat \<Rightarrow> lookup" where
  "slowPending n = \<lparr> answer = Body (txBody ''pending''), latency = 6000 \<rparr>"

definition noCampaign :: "nat \<Rightarrow> call_result" where
  "noCampaign i = Rejected"

text \<open>A chain with no campaign, and one whose campaign call fails on the network.\<close>

definition quietChain :: chain where
  "quietChain = \<lparr> getTotalStx = Fulfilled (Inr (cvUInt ''5000000'')),
                    getTotalContributors = Fulfilled (Inr (cvUInt ''2'')),
                    getActiveCampaigns = Fulfilled (Inr (cvUInt ''0'')),
                    getCampaignCount = Fulfilled (Inr (cvUInt ''0'')),
                    getCampaign = noCampaign \<rparr>"

definition brokenChain :: chain where
  "brokenChain = \<lparr> getTotalStx = Fulfilled (Inr (cvUInt ''5000000'')),
                     getTotalContributors = Fulfilled (Inr (cvUInt ''2'')),
                     getActiveCampaigns = Fulfilled (Inr (cvUInt ''1'')),
                     getCampaignCount = Fulfilled (Inr (cvUInt ''1'')),
                     getCampaign = noCampaign \<rparr>"

definition emptyPage :: page where
  "emptyPage = \<lparr> user = None, campaigns = [],
                 globalStats = \<lparr> totalRaised = Num 0, totalContributors = Num 0,
                                 activeCampaigns = Num 0, totalCampaigns = Num 0 \<rparr>,
                 loading = True, closingCampaign = None, currentBlockHeight = None \<rparr>"

definition deadChain :: chain where
  "deadChain = \<lparr> getTotalStx = Rejected, getTotalContributors = Rejected,
                   getActiveCampaigns = Rejected, getCampaignCount = Rejected,
                   getCampaign = noCampaign \<rparr>"

text \<open>
  Three campaigns: the second has a goal that is a tuple with a field \<^verbatim>\<open>toString\<close>, which
  \<^verbatim>\<open>Number\<close> cannot convert.
\<close>

definition mixedCampaigns :: "nat \<Rightarrow> call_result" where
  "mixedCampaigns i =
    (if i = 0 then Fulfilled (Inr (cvSomeTuple [(''goal'', cvUInt ''1500000'')]))
     else if i = 1 then Fulfilled (Inr (cvSomeTuple
        [(''goal'', JObject [(''type'', JString ''(tuple)''),
                             (''value'', JObject [(''toString'', cvUInt ''1'')])])]))
     else if i = 2 then Fulfilled (Inr (cvSomeTuple [(''active'', cvBool True)]))
     else Rejected)"

definition mixedChain :: chain where
  "mixedChain = \<lparr> getTotalStx = Fulfilled (Inr (cvUInt ''5000000'')),
                    getTotalContributors = Fulfilled (Inr (cvUInt ''2'')),
                    getActiveCampaigns = Fulfilled (Inr (cvUInt ''1'')),
                    getCampaignCount = Fulfilled (Inr (cvUInt ''3'')),
                    getCampaign = mixedCampaigns \<rparr>"

text \<open>A page with one campaign of the given total and goal, owned by \<^verbatim>\<open>ST1OWNER\<close>.\<close>

definition sampleCampaign :: "rat \<Rightarrow> rat \<Rightarrow> Campaign" where
  "sampleCampaign t g = \<lparr> id_c = 0, title = ''Well'', description = ''A village well'',
      goal = Num g, total_c = Num t, deadline = Num 500, owner = JString ''ST1OWNER'',
      active = True, successful = False, withdrawn = False, finalized = False \<rparr>"

definition samplePage :: "string \<Rightarrow> rat \<Rightarrow> rat \<Rightarrow> page" where
  "samplePage address t g =
     emptyPage \<lparr> user := Some \<lparr> stxAddressTestnet = JString address \<rparr>,
                 campaigns := [sampleCampaign t g], loading := False \<rparr>"

definition sampleWorld :: "wallet_outcome \<Rightarrow> (nat \<Rightarrow> lookup) \<Rightarrow> world" where
  "sampleWorld w endpoint =
     \<lparr> confirmAnswer = True, wallet = w, txStatus = endpoint, chainView = quietChain \<rparr>"

section \<open>Facts about the conversions\<close>

lemma bind_e_simps [simp]: "bind_e (Inl e) f = Inl e" "bind_e (Inr x) f = f x"
  by (simp_all add: bind_e_def)

lemma toString_coercible:
  "(coercible v \<longrightarrow> (\<exists>s. toString B v = Inr s)) \<and>
   (\<not> coercible v \<longrightarrow> toString B v = Inl TypeError)"
  "(coercible_list vs \<longrightarrow> (\<exists>s. joinElems B vs = Inr s)) \<and>
   (\<not> coercible_list vs \<longrightarrow> joinElems B vs = Inl TypeError)"
  by (induction B v and B vs rule: toString_joinElems.induct) (auto simp: nullish_def)

lemma toString_ok: "coercible v \<Longrightarrow> \<exists>s. toString B v = Inr s"
  using toString_coercible(1) by blast

lemma toString_throws: "\<not> coercible v \<Longrightarrow> toString B v = Inl TypeError"
  using toString_coercible(1) by blast

lemma toNumber_ok: "coercible v \<Longrightarrow> \<exists>n. toNumber B v = Inr n"
  using toString_ok [of v B] by (cases v) (auto simp: toNumber_def)

lemma toNumber_throws: "\<not> coercible v \<Longrightarrow> toNumber B v = Inl TypeError"
  using toString_throws [of v B] by (cases v) (auto simp: toNumber_def)

lemma coercible_nullish_or: "coercible b \<Longrightarrow> coercible (nullish_or a b) = coercible a"
  by (cases a) (auto simp: nullish_or_def nullish_def)

lemma rawStruct_not_nullish: "\<not> nullish (rawStruct j)"
  by (simp add: rawStruct_def nullish_or_def nullish_def)

lemma get_prop_rawStruct [simp]: "get_prop (rawStruct j) k = Inr (own_prop (rawStruct j) k)"
  by (simp add: get_prop_def rawStruct_not_nullish)

lemma jStr_ok: "coercible (opt_get f ''value'') \<Longrightarrow> \<exists>s. jStr B f = Inr s"
  unfolding jStr_def by (rule toString_ok) (simp add: coercible_nullish_or)

lemma jStr_throws: "\<not> coercible (opt_get f ''value'') \<Longrightarrow> jStr B f = Inl TypeError"
  unfolding jStr_def by (rule toString_throws) (simp add: coercible_nullish_or)

lemma jNum_ok: "coercible (opt_get f ''value'') \<Longrightarrow> \<exists>n. jNum B f = Inr n"
  unfolding jNum_def by (rule toNumber_ok) (simp add: coercible_nullish_or)

lemma jNum_throws: "\<not> coercible (opt_get f ''value'') \<Longrightarrow> jNum B f = Inl TypeError"
  unfolding jNum_def by (rule toNumber_throws) (simp add: coercible_nullish_or)

lemma jStr_absent: "jStr B JUndefined = Inr ''''"
  by (simp add: jStr_def opt_get_def nullish_or_def nullish_def)

lemma jNum_absent: "jNum B JUndefined = Inr (Num 0)"
  by (simp add: jNum_def opt_get_def nullish_or_def nullish_def toNumber_def)

lemma jBool_absent: "jBool JUndefined = False"
  by (simp add: jBool_def opt_get_def nullish_or_def nullish_def toBoolean_def)

text \<open>What \<open>parseCampaign\<close> returns, when it returns.\<close>

lemma parseCampaign_Inr_iff:
  "parseCampaign B j i = Inr c \<longleftrightarrow>
    (\<exists>st sd ng nt nd.
      jStr B (own_prop (rawStruct j) ''title'') = Inr st \<and>
      jStr B (own_prop (rawStruct j) ''description'') = Inr sd \<and>
      jNum B (own_prop (rawStruct j) ''goal'') = Inr ng \<and>
      jNum B (own_prop (rawStruct j) ''total'') = Inr nt \<and>
      jNum B (own_prop (rawStruct j) ''deadline'') = Inr nd \<and>
      c = \<lparr> id_c = i, title = str_or st ''Campaign ${id}'',
            description = str_or sd ''Campaign ${id}'',
            goal = div_by ng 1000000, total_c = div_by nt 1000000, deadline = nd,
            owner = val_or (opt_get (own_prop (rawStruct j) ''owner'') ''value'') (JString ''''),
            active = jBool (own_prop (rawStruct j) ''active''),
            successful = jBool (own_prop (rawStruct j) ''successful''),
            withdrawn = jBool (own_prop (rawStruct j) ''withdrawn''),
            finalized = jBool (own_prop (rawStruct j) ''finalized'') \<rparr>)"
  unfolding parseCampaign_def Let_def get_prop_rawStruct bind_e_simps
  by (auto simp: bind_e_def split: sum.splits)

lemma parseCampaign_id: "parseCampaign B j i = Inr c \<Longrightarrow> id_c c = i"
  unfolding parseCampaign_Inr_iff by auto

lemma parseCampaign_convertible:
  assumes "convertible j"
  shows "\<exists>c. parseCampaign B j i = Inr c"
proof -
  from assms obtain st sd ng nt nd where
    "jStr B (own_prop (rawStruct j) ''title'') = Inr st"
    "jStr B (own_prop (rawStruct j) ''description'') = Inr sd"
    "jNum B (own_prop (rawStruct j) ''goal'') = Inr ng"
    "jNum B (own_prop (rawStruct j) ''total'') = Inr nt"
    "jNum B (own_prop (rawStruct j) ''deadline'') = Inr nd"
    unfolding convertible_def fieldValue_def
    using jStr_ok jNum_ok by metis
  then show ?thesis
    unfolding parseCampaign_Inr_iff by blast
qed

lemma parseCampaign_not_convertible:
  assumes "\<not> convertible j"
  shows "parseCampaign B j i = Inl TypeError"
proof -
  let ?d = "rawStruct j"
  have cases: "jStr B f = Inl TypeError \<or> (\<exists>s. jStr B f = Inr s)"
     "jNum B f = Inl TypeError \<or> (\<exists>s. jNum B f = Inr s)" for f
    using jStr_ok jStr_throws jNum_ok jNum_throws by blast+
  have bad: "jStr B (own_prop ?d ''title'') = Inl TypeError \<or>
        jStr B (own_prop ?d ''description'') = Inl TypeError \<or>
        jNum B (own_prop ?d ''goal'') = Inl TypeError \<or>
        jNum B (own_prop ?d ''total'') = Inl TypeError \<or>
        jNum B (own_prop ?d ''deadline'') = Inl TypeError"
    using assms unfolding convertible_def fieldValue_def
    using jStr_throws jNum_throws by blast
  show ?thesis
    using bad cases(1) [of "own_prop ?d ''title''"] cases(1) [of "own_prop ?d ''description''"]
      cases(2) [of "own_prop ?d ''goal''"] cases(2) [of "own_prop ?d ''total''"]
      cases(2) [of "own_prop ?d ''deadline''"]
    unfolding parseCampaign_def Let_def get_prop_rawStruct bind_e_simps
    by (elim disjE exE) simp_all
qed

text \<open>The definitions unfolded to run the decode on the sample inputs.\<close>

lemmas eval_defs = cvSomeTuple_def cvUInt_def cvBool_def cvPrincipal_def rawStruct_def opt_get_def
  own_prop_def nullish_def nullish_or_def fieldValue_def convertible_def get_prop_def
  jStr_def jNum_def jBool_def toNumber_def toBoolean_def str_or_def val_or_def div_by_def
  sampleBuiltins_def decimalToNum_def is_digit_def digit_val_def

section \<open>The decode: absent fields, flags, totality\<close>

text \<open>
  Claim C2, as the code has it. For every response whose title, description, goal, total
  and deadline payloads can be converted, \<open>parseCampaign\<close> returns a campaign (it does
  not throw), and in it every absent numeric field is 0, every absent flag is false and
  an absent owner is the empty string. An absent title or description is not the empty
  string: it is replaced by a placeholder that starts with \<open>Campaign\<close>.
\<close>

theorem parseCampaign_absent_fields:
  assumes "convertible j"
  shows "\<exists>c. parseCampaign B j i = Inr c \<and>
     (absent j ''goal'' \<longrightarrow> goal c = Num 0) \<and>
     (absent j ''total'' \<longrightarrow> total_c c = Num 0) \<and>
     (absent j ''deadline'' \<longrightarrow> deadline c = Num 0) \<and>
     (absent j ''active'' \<longrightarrow> \<not> active c) \<and>
     (absent j ''successful'' \<longrightarrow> \<not> successful c) \<and>
     (absent j ''withdrawn'' \<longrightarrow> \<not> withdrawn c) \<and>
     (absent j ''finalized'' \<longrightarrow> \<not> finalized c) \<and>
     (absent j ''owner'' \<longrightarrow> owner c = JString '''') \<and>
     (absent j ''title'' \<longrightarrow> title c \<noteq> '''' \<and> take 9 (title c) = ''Campaign '') \<and>
     (absent j ''description'' \<longrightarrow>
        description c \<noteq> '''' \<and> take 9 (description c) = ''Campaign '')"
proof -
  from parseCampaign_convertible [OF assms] obtain c where c: "parseCampaign B j i = Inr c"
    by blast
  from c [unfolded parseCampaign_Inr_iff] obtain st sd ng nt nd where f:
    "jStr B (own_prop (rawStruct j) ''title'') = Inr st"
    "jStr B (own_prop (rawStruct j) ''description'') = Inr sd"
    "jNum B (own_prop (rawStruct j) ''goal'') = Inr ng"
    "jNum B (own_prop (rawStruct j) ''total'') = Inr nt"
    "jNum B (own_prop (rawStruct j) ''deadline'') = Inr nd"
    and r: "c = \<lparr> id_c = i, title = str_or st ''Campaign ${id}'',
            description = str_or sd ''Campaign ${id}'',
            goal = div_by ng 1000000, total_c = div_by nt 1000000, deadline = nd,
            owner = val_or (opt_get (own_prop (rawStruct j) ''owner'') ''value'') (JString ''''),
            active = jBool (own_prop (rawStruct j) ''active''),
            successful = jBool (own_prop (rawStruct j) ''successful''),
            withdrawn = jBool (own_prop (rawStruct j) ''withdrawn''),
            finalized = jBool (own_prop (rawStruct j) ''finalized'') \<rparr>"
    by blast
  have "absent j ''goal'' \<longrightarrow> goal c = Num 0"
    using f(3) by (auto simp: r absent_def jNum_absent div_by_def)
  moreover have "absent j ''total'' \<longrightarrow> total_c c = Num 0"
    using f(4) by (auto simp: r absent_def jNum_absent div_by_def)
  moreover have "absent j ''deadline'' \<longrightarrow> deadline c = Num 0"
    using f(5) by (auto simp: r absent_def jNum_absent)
  moreover have "absent j ''active'' \<longrightarrow> \<not> active c"
    by (simp add: r absent_def jBool_absent)
  moreover have "absent j ''successful'' \<longrightarrow> \<not> successful c"
    by (simp add: r absent_def jBool_absent)
  moreover have "absent j ''withdrawn'' \<longrightarrow> \<not> withdrawn c"
    by (simp add: r absent_def jBool_absent)
  moreover have "absent j ''finalized'' \<longrightarrow> \<not> finalized c"
    by (simp add: r absent_def jBool_absent)
  moreover have "absent j ''owner'' \<longrightarrow> owner c = JString ''''"
    by (simp add: r absent_def opt_get_def nullish_def val_or_def toBoolean_def)
  moreover have "absent j ''title'' \<longrightarrow> title c \<noteq> '''' \<and> take 9 (title c) = ''Campaign ''"
    using f(1) by (auto simp: r absent_def jStr_absent str_or_def)
  moreover have "absent j ''description'' \<longrightarrow>
      description c \<noteq> '''' \<and> take 9 (description c) = ''Campaign ''"
    using f(2) by (auto simp: r absent_def jStr_absent str_or_def)
  ultimately show ?thesis using c by blast
qed

text \<open>
  The theorem at a response that carries only a goal: the total is absent and decodes
  to 0, the title is absent and decodes to a text that is not empty.
\<close>

theorem parseCampaign_absent_fields_witness:
  "convertible (cvSomeTuple [(''goal'', cvUInt ''1500000'')]) \<and>
   absent (cvSomeTuple [(''goal'', cvUInt ''1500000'')]) ''total'' \<and>
   absent (cvSomeTuple [(''goal'', cvUInt ''1500000'')]) ''title'' \<and>
   (\<exists>c. parseCampaign sampleBuiltins (cvSomeTuple [(''goal'', cvUInt ''1500000'')]) 3 = Inr c \<and>
        total_c c = Num 0 \<and> title c \<noteq> '''')"
  using parseCampaign_absent_fields [of "cvSomeTuple [(''goal'', cvUInt ''1500000'')]" sampleBuiltins 3]
  by (auto simp: eval_defs absent_def)

text \<open>
  Against C2 as the spec words it (every missing string field is the empty string): the
  title and the description of a response without them.
\<close>

theorem parseCampaign_absent_title_counterexample:
  "parseCampaign sampleBuiltins (cvSomeTuple [(''goal'', cvUInt ''1500000'')]) 3 =
     Inr \<lparr> id_c = 3, title = ''Campaign ${id}'', description = ''Campaign ${id}'',
           goal = Num (3 / 2), total_c = Num 0, deadline = Num 0, owner = JString '''',
           active = False, successful = False, withdrawn = False, finalized = False \<rparr>
   \<and> absent (cvSomeTuple [(''goal'', cvUInt ''1500000'')]) ''title''
   \<and> ''Campaign ${id}'' \<noteq> ''''"
  by (simp add: parseCampaign_def eval_defs absent_def)

text \<open>
  Claim C8, as the code has it. The decode copies the flags one by one: \<open>active\<close> and
  \<open>withdrawn\<close> of the decoded campaign are the truthiness of the raw \<open>active\<close> and
  \<open>withdrawn\<close> values, so a decoded campaign has \<open>active = false\<close> whenever
  \<open>withdrawn = true\<close> exactly when the raw structure has.
\<close>

theorem parseCampaign_flags:
  assumes "parseCampaign B j i = Inr c"
  shows "active c = rawFlag j ''active'' \<and> withdrawn c = rawFlag j ''withdrawn'' \<and>
         ((withdrawn c \<longrightarrow> \<not> active c) \<longleftrightarrow>
          (rawFlag j ''withdrawn'' \<longrightarrow> \<not> rawFlag j ''active''))"
  using assms unfolding parseCampaign_Inr_iff rawFlag_def by auto

theorem parseCampaign_flags_witness:
  "parseCampaign sampleBuiltins
     (cvSomeTuple [(''active'', cvBool False), (''withdrawn'', cvBool True)]) 0 =
     Inr \<lparr> id_c = 0, title = ''Campaign ${id}'', description = ''Campaign ${id}'',
           goal = Num 0, total_c = Num 0, deadline = Num 0, owner = JString '''',
           active = False, successful = False, withdrawn = True, finalized = False \<rparr> \<and>
   rawFlag (cvSomeTuple [(''active'', cvBool False), (''withdrawn'', cvBool True)]) ''withdrawn'' \<and>
   \<not> rawFlag (cvSomeTuple [(''active'', cvBool False), (''withdrawn'', cvBool True)]) ''active''"
  using parseCampaign_flags [of sampleBuiltins
      "cvSomeTuple [(''active'', cvBool False), (''withdrawn'', cvBool True)]" 0
      "\<lparr> id_c = 0, title = ''Campaign ${id}'', description = ''Campaign ${id}'',
           goal = Num 0, total_c = Num 0, deadline = Num 0, owner = JString '''',
           active = False, successful = False, withdrawn = True, finalized = False \<rparr>"]
  by (simp add: parseCampaign_def eval_defs rawFlag_def)

text \<open>Against C8 as stated: a response with both flags set decodes to both flags set.\<close>

theorem parseCampaign_active_withdrawn_counterexample:
  "parseCampaign sampleBuiltins
     (cvSomeTuple [(''active'', cvBool True), (''withdrawn'', cvBool True)]) 0 =
     Inr \<lparr> id_c = 0, title = ''Campaign ${id}'', description = ''Campaign ${id}'',
           goal = Num 0, total_c = Num 0, deadline = Num 0, owner = JString '''',
           active = True, successful = False, withdrawn = True, finalized = False \<rparr>"
  by (simp add: parseCampaign_def eval_defs)

text \<open>
  Claim C10, as the code has it. Every field access of \<open>parseCampaign\<close> is guarded, the
  conversions are not: the call returns a campaign exactly when the title, description,
  goal, total and deadline payloads can be converted, and throws a TypeError otherwise
  (the payload is, or holds in nested arrays, an object with an own \<open>toString\<close>). The
  caller catches it for each campaign.
\<close>

theorem parseCampaign_returns_iff_convertible:
  "(convertible j \<longrightarrow> (\<exists>c. parseCampaign B j i = Inr c)) \<and>
   (\<not> convertible j \<longrightarrow> parseCampaign B j i = Inl TypeError)"
  using parseCampaign_convertible parseCampaign_not_convertible by blast

theorem parseCampaign_returns_iff_convertible_witness:
  "convertible (cvSomeTuple [(''goal'', cvUInt ''1500000'')]) \<and>
   (\<exists>c. parseCampaign sampleBuiltins (cvSomeTuple [(''goal'', cvUInt ''1500000'')]) 0 = Inr c) \<and>
   \<not> convertible (cvSomeTuple [(''goal'', JObject [(''value'', JArray [JObject [(''toString'', JNull)]])])]) \<and>
   parseCampaign sampleBuiltins
     (cvSomeTuple [(''goal'', JObject [(''value'', JArray [JObject [(''toString'', JNull)]])])]) 0
     = Inl TypeError"
  using parseCampaign_returns_iff_convertible
      [of "cvSomeTuple [(''goal'', cvUInt ''1500000'')]" sampleBuiltins 0]
    parseCampaign_returns_iff_convertible
      [of "cvSomeTuple [(''goal'', JObject [(''value'', JArray [JObject [(''toString'', JNull)]])])]"
          sampleBuiltins 0]
  by (simp add: eval_defs)

text \<open>
  Against C10 as stated (never throws): a tuple whose goal is itself a tuple with a field
  named \<open>toString\<close>. \<^verbatim>\<open>Number\<close> finds the own property, which is not a function, and
  throws.
\<close>

theorem parseCampaign_throws_counterexample:
  "parseCampaign sampleBuiltins
     (cvSomeTuple [(''goal'', JObject [(''type'', JString ''(tuple)''),
                                       (''value'', JObject [(''toString'', cvUInt ''1'')])])]) 0
   = Inl TypeError"
  by (simp add: parseCampaign_def eval_defs)

section \<open>The Deadline Presenter\<close>

lemmas fmt_defs = formatDeadlineDisplay_def truthy_num_def js_le_def js_ge_def js_gt_def
  js_add_def js_sub_def mul_by_def unixThreshold_def numberToString_def intToString_def
  digits.simps digit_char_def

text \<open>
  Claim C6, as the code has it. The presenter changes nothing, and its result is fixed
  by its two arguments together with the clock and the locale's date format, which it
  reads. A deadline of 0, any deadline that is not positive and \<^verbatim>\<open>NaN\<close> give
  \<open>No deadline\<close>; 1700000000 is above the threshold and gives the locale's rendering
  of that instant (in milliseconds); 500 at height 400 gives the rendering of the clock
  plus 100 blocks of 10 minutes, followed by \<open>(est, block 500)\<close>; 500 at height 600
  gives \<open>Block #500\<close>.
\<close>

theorem deadline_presenter_cases:
  "formatDeadlineDisplay B now (Num 0) h = ''No deadline'' \<and>
   (r \<le> 0 \<longrightarrow> formatDeadlineDisplay B now (Num r) h = ''No deadline'') \<and>
   formatDeadlineDisplay B now NaN h = ''No deadline'' \<and>
   formatDeadlineDisplay B now (Num 1700000000) h = toLocaleString B (Num 1700000000000) \<and>
   formatDeadlineDisplay B (Num t) (Num 500) (Some (Num 400)) =
     toLocaleString B (Num (t + 100 * (10 * 60 * 1000))) @ '' (est, block 500)'' \<and>
   formatDeadlineDisplay B now (Num 500) (Some (Num 600)) = ''Block #500''"
  by (simp add: fmt_defs)

theorem deadline_presenter_cases_witness:
  "(- 5 :: rat) \<le> 0 \<and>
   formatDeadlineDisplay sampleBuiltins (Num 1000) (Num (- 5)) None = ''No deadline'' \<and>
   formatDeadlineDisplay sampleBuiltins (Num 1000) (Num 1700000000) None = ''date 1700000000000'' \<and>
   formatDeadlineDisplay sampleBuiltins (Num 1000) (Num 500) (Some (Num 400)) =
     ''date 60001000 (est, block 500)'' \<and>
   formatDeadlineDisplay sampleBuiltins (Num 1000) (Num 500) (Some (Num 600)) = ''Block #500''"
  using deadline_presenter_cases [of sampleBuiltins "Num 1000" None "- 5" 1000]
    deadline_presenter_cases [of sampleBuiltins "Num 1000" "Some (Num 400)" "- 5" 1000]
    deadline_presenter_cases [of sampleBuiltins "Num 1000" "Some (Num 600)" "- 5" 1000]
  by (simp add: sampleBuiltins_def intToString_def digits.simps digit_char_def)

text \<open>
  Against C6 as stated (a pure function of the deadline and the height): the same
  deadline and height, presented at two instants a day apart.
\<close>

theorem deadline_presenter_clock_counterexample:
  "formatDeadlineDisplay sampleBuiltins (Num 0) (Num 500) (Some (Num 400)) =
     ''date 60000000 (est, block 500)'' \<and>
   formatDeadlineDisplay sampleBuiltins (Num 86400000) (Num 500) (Some (Num 400)) =
     ''date 146400000 (est, block 500)''"
  by (simp add: fmt_defs sampleBuiltins_def)

section \<open>The refresh\<close>

lemma fulfilled_None_iff: "fulfilled rs = None \<longleftrightarrow> Rejected \<in> set rs"
  by (induction rs rule: fulfilled.induct) (auto split: option.splits)

lemma fulfilled_Some:
  "fulfilled rs = Some vs \<Longrightarrow>
     length vs = length rs \<and> (\<forall>i<length rs. rs ! i = Fulfilled (vs ! i))"
proof (induction rs arbitrary: vs rule: fulfilled.induct)
  case 1
  then show ?case by simp
next
  case (2 rs)
  then show ?case by simp
next
  case (3 v rs)
  then obtain ws where ws: "fulfilled rs = Some ws" "vs = v # ws"
    by (auto split: option.splits)
  with "3.IH" [OF ws(1)] show ?case
    by (auto simp: nth_Cons split: nat.splits)
qed

lemma fetchAllData_stats_rejected:
  assumes "Rejected \<in> set [getTotalStx ch, getTotalContributors ch,
                            getActiveCampaigns ch, getCampaignCount ch]"
  shows "fetchAllData B ch st = (st\<lparr>loading := False\<rparr>, statCalls @ [fetchError NetworkError])"
proof -
  from assms have "fulfilled [getTotalStx ch, getTotalContributors ch,
                             getActiveCampaigns ch, getCampaignCount ch] = None"
    unfolding fulfilled_None_iff .
  then show ?thesis by (simp add: fetchAllData_def)
qed

lemma fetchAllData_campaign_rejected:
  assumes "statsRead B ch = Some (gs, n)" and "i < n" and "getCampaign ch i = Rejected"
  shows "fetchAllData B ch st =
     (st\<lparr>globalStats := gs, loading := False\<rparr>,
      statCalls @ campaignCalls n @ [fetchError NetworkError])"
proof -
  have "Rejected \<in> set (map (getCampaign ch) [0..<n])"
    using assms(2,3) by (force simp: image_iff)
  then have "fulfilled (map (getCampaign ch) [0..<n]) = None"
    unfolding fulfilled_None_iff .
  then show ?thesis
    using assms(1)
    by (auto simp: fetchAllData_def statsRead_def Let_def split: option.splits sum.splits)
qed

lemma fetchAllData_batch:
  assumes "statsRead B ch = Some (gs, n)"
    and "fulfilled (map (getCampaign ch) [0..<n]) = Some rs"
  shows "fetchAllData B ch st =
     (st\<lparr>globalStats := gs, campaigns := fst (decodeBatch B rs), loading := False\<rparr>,
      statCalls @ campaignCalls n @ snd (decodeBatch B rs))"
  using assms
  by (auto simp: fetchAllData_def statsRead_def Let_def
      split: option.splits sum.splits prod.splits)

lemma map_filter_member:
  "y \<in> set (List.map_filter f xs) \<longleftrightarrow> (\<exists>x \<in> set xs. f x = Some y)"
  by (induction xs) (auto split: option.splits)

lemma zip_upt_member: "i < length rs \<Longrightarrow> (rs ! i, i) \<in> set (zip rs [0..<length rs])"
  by (force simp: set_zip)

lemma zip_upt_elem: "(r, k) \<in> set (zip rs [0..<length rs]) \<Longrightarrow> k < length rs \<and> r = rs ! k"
  by (auto simp: set_zip)

lemma tryParse_logs:
  "x \<in> set (snd (tryParse B ri)) \<Longrightarrow> \<exists>e. x = parseWarning (snd ri) e"
  by (cases "decodeCampaign B (fst ri) (snd ri)") (auto simp: tryParse_def)

lemma decodeBatch_logs:
  assumes "decodeBatch B rs = (cs, ws)" and "x \<in> set ws"
  shows "\<exists>i e. x = parseWarning i e"
  using assms tryParse_logs by (fastforce simp: decodeBatch_def)

lemma decodeBatch_keeps:
  assumes "i < length rs" and "decodeCampaign B (rs ! i) i = Inr c"
  shows "c \<in> set (fst (decodeBatch B rs))"
proof -
  have "fst (tryParse B (rs ! i, i)) = Some c"
    using assms(2) by (simp add: tryParse_def)
  with zip_upt_member [OF assms(1)] show ?thesis
    by (force simp: decodeBatch_def map_filter_member)
qed

lemma decodeBatch_origin:
  assumes "c \<in> set (fst (decodeBatch B rs))"
  shows "id_c c < length rs \<and> decodeCampaign B (rs ! id_c c) (id_c c) = Inr c"
proof -
  from assms obtain r k where rk: "(r, k) \<in> set (zip rs [0..<length rs])"
    and p: "fst (tryParse B (r, k)) = Some c"
    by (auto simp: decodeBatch_def map_filter_member)
  from p have d: "decodeCampaign B r k = Inr c"
    by (auto simp: tryParse_def split: sum.splits)
  then have "id_c c = k"
    by (cases r) (auto simp: decodeCampaign_def parseCampaign_id)
  with zip_upt_elem [OF rk] d show ?thesis by simp
qed

lemma decodeBatch_drops:
  assumes "i < length rs" and "decodeCampaign B (rs ! i) i = Inl e"
  shows "parseWarning i e \<in> set (snd (decodeBatch B rs)) \<and>
         (\<forall>c \<in> set (fst (decodeBatch B rs)). id_c c \<noteq> i)"
proof
  have "parseWarning i e \<in> set (snd (tryParse B (rs ! i, i)))"
    using assms(2) by (simp add: tryParse_def)
  with zip_upt_member [OF assms(1)] show "parseWarning i e \<in> set (snd (decodeBatch B rs))"
    by (force simp: decodeBatch_def)
  show "\<forall>c \<in> set (fst (decodeBatch B rs)). id_c c \<noteq> i"
    using decodeBatch_origin [of _ B rs] assms(2) by force
qed

lemma fetchError_not_warning: "fetchError e \<notin> set (snd (decodeBatch B rs))"
  using decodeBatch_logs [of B rs "fst (decodeBatch B rs)" "snd (decodeBatch B rs)" "fetchError e"]
  by (auto simp: fetchError_def parseWarning_def)

lemma upt_0_3: "[0..<3] = [0, 1, 2]"
  by code_simp

lemmas chain_defs = quietChain_def brokenChain_def deadChain_def mixedChain_def mixedCampaigns_def
  noCampaign_def statsRead_def readStats_def statNumber_def callCount_def statCalls_def
  campaignCalls_def fetchError_def

lemmas page_defs = samplePage_def sampleCampaign_def sampleWorld_def emptyPage_def

text \<open>
  Claim C7, as the code has it. A refresh that fails on the network logs the failure
  once and issues every call once (nothing is retried). When one of the four statistic
  calls fails, the campaign list and the global statistics stay as they were. When the
  statistics arrive and a campaign call fails, the campaign list stays as it was, but
  the global statistics have already been replaced by the new ones.
\<close>

theorem refresh_network_failure:
  "(Rejected \<in> set [getTotalStx ch, getTotalContributors ch,
                    getActiveCampaigns ch, getCampaignCount ch]
      \<longrightarrow> fetchAllData B ch st =
           (st\<lparr>loading := False\<rparr>, statCalls @ [fetchError NetworkError])) \<and>
   (statsRead B ch = Some (gs, n) \<and> i < n \<and> getCampaign ch i = Rejected
      \<longrightarrow> fetchAllData B ch st =
           (st\<lparr>globalStats := gs, loading := False\<rparr>,
            statCalls @ campaignCalls n @ [fetchError NetworkError]))"
  using fetchAllData_stats_rejected fetchAllData_campaign_rejected by blast

theorem refresh_network_failure_witness:
  "fetchAllData sampleBuiltins deadChain (samplePage ''ST1OWNER'' 150 100) =
     (samplePage ''ST1OWNER'' 150 100,
      [ReadOnlyCall ''get-total-stx'' [], ReadOnlyCall ''get-total-contributors'' [],
       ReadOnlyCall ''get-active-campaigns'' [], ReadOnlyCall ''get-campaign-count'' [],
       ConsoleError ''Error fetching blockchain data:'' NetworkError]) \<and>
   fetchAllData sampleBuiltins brokenChain (samplePage ''ST1OWNER'' 150 100) =
     (samplePage ''ST1OWNER'' 150 100
        \<lparr> globalStats := \<lparr> totalRaised = Num 5, totalContributors = Num 2,
                           activeCampaigns = Num 1, totalCampaigns = Num 1 \<rparr> \<rparr>,
      [ReadOnlyCall ''get-total-stx'' [], ReadOnlyCall ''get-total-contributors'' [],
       ReadOnlyCall ''get-active-campaigns'' [], ReadOnlyCall ''get-campaign-count'' [],
       ReadOnlyCall ''get-campaign'' [0],
       ConsoleError ''Error fetching blockchain data:'' NetworkError])"
  using refresh_network_failure [of deadChain sampleBuiltins "samplePage ''ST1OWNER'' 150 100"
      "\<lparr> totalRaised = Num 5, totalContributors = Num 2,
         activeCampaigns = Num 1, totalCampaigns = Num 1 \<rparr>" 1 0]
    refresh_network_failure [of brokenChain sampleBuiltins "samplePage ''ST1OWNER'' 150 100"
      "\<lparr> totalRaised = Num 5, totalContributors = Num 2,
         activeCampaigns = Num 1, totalCampaigns = Num 1 \<rparr>" 1 0]
  by (simp add: chain_defs page_defs eval_defs)

text \<open>
  Against C7 as stated (the global statistics are left untouched): the statistics arrive,
  the only campaign call fails, and the statistics shown have changed.
\<close>

theorem refresh_stats_replaced_counterexample:
  "globalStats (fst (fetchAllData sampleBuiltins brokenChain emptyPage)) =
     \<lparr> totalRaised = Num 5, totalContributors = Num 2,
       activeCampaigns = Num 1, totalCampaigns = Num 1 \<rparr>
   \<and> globalStats emptyPage =
     \<lparr> totalRaised = Num 0, totalContributors = Num 0,
       activeCampaigns = Num 0, totalCampaigns = Num 0 \<rparr>
   \<and> snd (fetchAllData sampleBuiltins brokenChain emptyPage) =
      [ReadOnlyCall ''get-total-stx'' [], ReadOnlyCall ''get-total-contributors'' [],
       ReadOnlyCall ''get-active-campaigns'' [], ReadOnlyCall ''get-campaign-count'' [],
       ReadOnlyCall ''get-campaign'' [0],
       ConsoleError ''Error fetching blockchain data:'' NetworkError]"
  by (simp add: fetchAllData_def chain_defs page_defs eval_defs)

text \<open>
  Claim C9. When the statistics and every campaign call have answered, the refresh ends
  with the campaign list replaced and no fetch error logged, whatever the responses
  decode to: every campaign that decodes is in the list, every campaign whose decode
  throws is logged with its index and is not in the list, and the list holds nothing
  else.
\<close>

theorem refresh_isolates_decode_failures:
  assumes "statsRead B ch = Some (gs, n)"
    and "fulfilled (map (getCampaign ch) [0..<n]) = Some rs"
  shows "fetchAllData B ch st =
           (st\<lparr>globalStats := gs, campaigns := fst (decodeBatch B rs), loading := False\<rparr>,
            statCalls @ campaignCalls n @ snd (decodeBatch B rs)) \<and>
         length rs = n \<and>
         (\<forall>i<n. \<forall>c. decodeCampaign B (rs ! i) i = Inr c \<longrightarrow>
             c \<in> set (campaigns (fst (fetchAllData B ch st)))) \<and>
         (\<forall>i<n. \<forall>e. decodeCampaign B (rs ! i) i = Inl e \<longrightarrow>
             parseWarning i e \<in> set (snd (fetchAllData B ch st)) \<and>
             (\<forall>c \<in> set (campaigns (fst (fetchAllData B ch st))). id_c c \<noteq> i)) \<and>
         (\<forall>c \<in> set (campaigns (fst (fetchAllData B ch st))).
             id_c c < n \<and> decodeCampaign B (rs ! id_c c) (id_c c) = Inr c) \<and>
         (\<forall>e. fetchError e \<notin> set (snd (fetchAllData B ch st)))"
proof -
  have f: "fetchAllData B ch st =
           (st\<lparr>globalStats := gs, campaigns := fst (decodeBatch B rs), loading := False\<rparr>,
            statCalls @ campaignCalls n @ snd (decodeBatch B rs))"
    by (rule fetchAllData_batch [OF assms])
  have n: "length rs = n"
    using fulfilled_Some [OF assms(2)] by simp
  have "fetchError e \<notin> set (snd (fetchAllData B ch st))" for e
    using fetchError_not_warning [of e B rs]
    by (auto simp: f statCalls_def campaignCalls_def fetchError_def)
  then show ?thesis
    using decodeBatch_keeps [of _ rs B] decodeBatch_drops [of _ rs B]
      decodeBatch_origin [of _ B rs]
    by (simp add: f n)
qed

text \<open>The theorem on three responses, the second of which cannot be decoded.\<close>

theorem refresh_isolates_decode_failures_witness:
  "statsRead sampleBuiltins mixedChain =
     Some (\<lparr> totalRaised = Num 5, totalContributors = Num 2,
             activeCampaigns = Num 1, totalCampaigns = Num 3 \<rparr>, 3) \<and>
   fulfilled (map (getCampaign mixedChain) [0..<3]) =
     Some [Inr (cvSomeTuple [(''goal'', cvUInt ''1500000'')]),
           Inr (cvSomeTuple [(''goal'', JObject [(''type'', JString ''(tuple)''),
                                                 (''value'', JObject [(''toString'', cvUInt ''1'')])])]),
           Inr (cvSomeTuple [(''active'', cvBool True)])] \<and>
   campaigns (fst (fetchAllData sampleBuiltins mixedChain emptyPage)) =
     [\<lparr> id_c = 0, title = ''Campaign ${id}'', description = ''Campaign ${id}'',
        goal = Num (3 / 2), total_c = Num 0, deadline = Num 0, owner = JString '''',
        active = False, successful = False, withdrawn = False, finalized = False \<rparr>,
      \<lparr> id_c = 2, title = ''Campaign ${id}'', description = ''Campaign ${id}'',
        goal = Num 0, total_c = Num 0, deadline = Num 0, owner = JString '''',
        active = True, successful = False, withdrawn = False, finalized = False \<rparr>] \<and>
   snd (fetchAllData sampleBuiltins mixedChain emptyPage) =
     [ReadOnlyCall ''get-total-stx'' [], ReadOnlyCall ''get-total-contributors'' [],
      ReadOnlyCall ''get-active-campaigns'' [], ReadOnlyCall ''get-campaign-count'' [],
      ReadOnlyCall ''get-campaign'' [0], ReadOnlyCall ''get-campaign'' [1],
      ReadOnlyCall ''get-campaign'' [2],
      ConsoleWarn ''Failed to parse campaign 1:'' TypeError]"
proof -
  let ?gs = "\<lparr> totalRaised = Num 5, totalContributors = Num 2,
               activeCampaigns = Num 1, totalCampaigns = Num 3 \<rparr>"
  let ?rs = "[Inr (cvSomeTuple [(''goal'', cvUInt ''1500000'')]),
           Inr (cvSomeTuple [(''goal'', JObject [(''type'', JString ''(tuple)''),
                                                 (''value'', JObject [(''toString'', cvUInt ''1'')])])]),
           Inr (cvSomeTuple [(''active'', cvBool True)])]"
  have s: "statsRead sampleBuiltins mixedChain = Some (?gs, 3)"
    by (simp add: chain_defs eval_defs)
  have f: "fulfilled (map (getCampaign mixedChain) [0..<3]) = Some ?rs"
    by (simp add: mixedChain_def mixedCampaigns_def upt_0_3)
  have "fetchAllData sampleBuiltins mixedChain emptyPage =
         (emptyPage\<lparr>globalStats := ?gs, campaigns := fst (decodeBatch sampleBuiltins ?rs),
                    loading := False\<rparr>,
          statCalls @ campaignCalls 3 @ snd (decodeBatch sampleBuiltins ?rs))"
    using refresh_isolates_decode_failures [OF s f, of emptyPage] by blast
  moreover have "decodeBatch sampleBuiltins ?rs =
     ([\<lparr> id_c = 0, title = ''Campaign ${id}'', description = ''Campaign ${id}'',
        goal = Num (3 / 2), total_c = Num 0, deadline = Num 0, owner = JString '''',
        active = False, successful = False, withdrawn = False, finalized = False \<rparr>,
      \<lparr> id_c = 2, title = ''Campaign ${id}'', description = ''Campaign ${id}'',
        goal = Num 0, total_c = Num 0, deadline = Num 0, owner = JString '''',
        active = True, successful = False, withdrawn = False, finalized = False \<rparr>],
      [ConsoleWarn ''Failed to parse campaign 1:'' TypeError])"
    by (simp add: decodeBatch_def tryParse_def decodeCampaign_def parseWarning_def
        parseCampaign_def eval_defs upt_0_3 digits.simps digit_char_def)
  ultimately show ?thesis
    using s f
    by (simp add: statCalls_def campaignCalls_def upt_0_3)
qed

section \<open>Polling and closing\<close>

lemma earliest_mem: "earliest fl = Some d \<Longrightarrow> d \<in> set fl"
  by (induction fl arbitrary: d) (auto split: option.splits if_splits)

lemma afterLookup_pending:
  "pendingResponse r \<Longrightarrow>
     afterLookup r retries = (if retries \<ge> maxRetries then Some (Inl TimedOut) else None)"
  by (auto simp: afterLookup_def pendingResponse_def get_prop_def split: status_response.splits)

lemma afterLookup_more: "afterLookup r retries = None \<Longrightarrow> retries < maxRetries"
  by (auto simp: afterLookup_def split: status_response.splits sum.splits if_splits)

text \<open>No run handles more than 16 answers.\<close>

lemma run_handled_le:
  "retries \<le> maxRetries \<Longrightarrow> snd (snd (run endpoint k inflight retries)) \<le> Suc maxRetries"
proof (induction endpoint k inflight retries rule: run.induct)
  case (1 endpoint k inflight retries)
  show ?case
  proof (cases "earliest inflight")
    case None
    with 1 show ?thesis by (subst run.simps) simp
  next
    case (Some due)
    show ?thesis
    proof (cases "fst due \<le> firingTime k")
      case False
      with Some 1 show ?thesis by (subst run.simps) simp
    next
      case True
      show ?thesis
      proof (cases "afterLookup (snd due) retries")
        case None
        have "Suc retries \<le> maxRetries" using afterLookup_more [OF None] by simp
        with "1.IH"(2) [OF Some True None] Some True None show ?thesis
          by (subst run.simps) simp
      next
        case (Some outcome)
        with \<open>earliest inflight = Some due\<close> True "1.prems" show ?thesis
          by (subst run.simps) simp
      qed
    qed
  qed
qed

text \<open>An answer that is handled belongs to a lookup that was issued.\<close>

lemma run_handled_le_issued:
  "k = retries + length inflight \<Longrightarrow>
     snd (snd (run endpoint k inflight retries)) \<le> fst (snd (run endpoint k inflight retries))"
proof (induction endpoint k inflight retries rule: run.induct)
  case (1 endpoint k inflight retries)
  show ?case
  proof (cases "earliest inflight")
    case None
    with 1 show ?thesis by (subst (1 2) run.simps) simp
  next
    case (Some due)
    have mem: "due \<in> set inflight" by (rule earliest_mem [OF Some])
    then have "inflight \<noteq> []" by auto
    then have len1: "Suc 0 \<le> length inflight" by (cases inflight) simp_all
    have len2: "length (remove1 due inflight) = length inflight - 1"
      using mem by (simp add: length_remove1)
    note len = len1 len2
    show ?thesis
    proof (cases "fst due \<le> firingTime k")
      case False
      with Some 1 show ?thesis by (subst (1 2) run.simps) simp
    next
      case True
      show ?thesis
      proof (cases "afterLookup (snd due) retries")
        case None
        have "k = Suc retries + length (remove1 due inflight)"
          using "1.prems" len by simp
        with "1.IH"(2) [OF Some True None] Some True None show ?thesis
          by (subst (1 2) run.simps) simp
      next
        case (Some outcome)
        with \<open>earliest inflight = Some due\<close> True "1.prems" len show ?thesis
          by (subst (1 2) run.simps) simp
      qed
    qed
  qed
qed

text \<open>While every answer is pending, the sixteenth answer handled times the poll out.\<close>

lemma run_pending:
  assumes "\<forall>n. pendingResponse (answer (endpoint n))"
    and "\<forall>x \<in> set inflight. pendingResponse (snd x)"
    and "retries \<le> maxRetries"
  shows "fst (run endpoint k inflight retries) = Inl TimedOut \<and>
         snd (snd (run endpoint k inflight retries)) = Suc maxRetries"
  using assms
proof (induction endpoint k inflight retries rule: run.induct)
  case (1 endpoint k inflight retries)
  let ?new = "(firingTime k + latency (endpoint k), answer (endpoint k))"
  have fire: "\<forall>x \<in> set (inflight @ [?new]). pendingResponse (snd x)"
    using "1.prems"(1,2) by simp
  show ?case
  proof (cases "earliest inflight")
    case None
    with "1.IH"(1) [OF None "1.prems"(1) fire "1.prems"(3)] show ?thesis
      by (subst (1 2) run.simps) simp
  next
    case (Some due)
    show ?thesis
    proof (cases "fst due \<le> firingTime k")
      case False
      with "1.IH"(3) [OF Some False "1.prems"(1) fire "1.prems"(3)] Some show ?thesis
        by (subst (1 2) run.simps) simp
    next
      case True
      have p: "pendingResponse (snd due)"
        using earliest_mem [OF Some] "1.prems"(2) by blast
      show ?thesis
      proof (cases "retries \<ge> maxRetries")
        case True
        with \<open>fst due \<le> firingTime k\<close> Some "1.prems"(3) afterLookup_pending [OF p, of retries]
        show ?thesis by (subst (1 2) run.simps) simp
      next
        case False
        then have n: "afterLookup (snd due) retries = None"
          using afterLookup_pending [OF p, of retries] by simp
        have rest: "\<forall>x \<in> set (remove1 due inflight). pendingResponse (snd x)"
          using "1.prems"(2) by (meson notin_set_remove1)
        from False have "Suc retries \<le> maxRetries" by simp
        with "1.IH"(2) [OF Some True n "1.prems"(1) rest] Some True n show ?thesis
          by (subst (1 2) run.simps) simp
      qed
    qed
  qed
qed

text \<open>When every answer comes before the next firing, no lookup overlaps another.\<close>

lemma run_pending_fast:
  assumes "\<forall>n. pendingResponse (answer (endpoint n)) \<and> latency (endpoint n) < pollInterval"
    and "retries \<le> maxRetries"
  shows "run endpoint k [] retries =
           (Inl TimedOut, Suc k + (maxRetries - retries), Suc maxRetries)"
  using assms(2)
proof (induction "maxRetries - retries" arbitrary: k retries)
  case 0
  then have r: "retries = maxRetries" by simp
  let ?new = "(firingTime k + latency (endpoint k), answer (endpoint k))"
  have due: "fst ?new \<le> firingTime (Suc k)"
    using assms(1) by (simp add: firingTime_def less_imp_le)
  have "run endpoint k [] retries = run endpoint (Suc k) [?new] retries"
    by (subst run.simps) simp
  also have "\<dots> = (Inl TimedOut, Suc k, Suc retries)"
    using due assms(1) r by (subst run.simps) (simp add: afterLookup_pending)
  finally show ?case using r by simp
next
  case (Suc m)
  then have lt: "retries < maxRetries" and m: "m = maxRetries - Suc retries" by simp_all
  let ?new = "(firingTime k + latency (endpoint k), answer (endpoint k))"
  have due: "fst ?new \<le> firingTime (Suc k)"
    using assms(1) by (simp add: firingTime_def less_imp_le)
  have "run endpoint k [] retries = run endpoint (Suc k) [?new] retries"
    by (subst run.simps) simp
  also have "\<dots> = run endpoint (Suc k) [] (Suc retries)"
    using due assms(1) lt by (subst run.simps) (simp add: afterLookup_pending)
  also have "\<dots> = (Inl TimedOut, Suc (Suc k) + (maxRetries - Suc retries), Suc maxRetries)"
    using Suc.hyps(1) [OF m] lt by simp
  finally show ?case using lt by simp
qed

lemma count_list_campaignCalls:
  "count_list (campaignCalls n) (ReadOnlyCall ''get-total-stx'' []) = 0"
  by (simp add: campaignCalls_def count_list_0_iff image_iff)

lemma count_list_warnings:
  "decodeBatch B rs = (cs, ws) \<Longrightarrow> count_list ws (ReadOnlyCall ''get-total-stx'' []) = 0"
  using decodeBatch_logs [of B rs cs ws] by (auto simp: count_list_0_iff parseWarning_def)

text \<open>Every refresh asks for the total exactly once.\<close>

lemma refreshCount_fetchAllData: "refreshCount (snd (fetchAllData B ch st)) = 1"
  by (auto simp: fetchAllData_def refreshCount_def Let_def statCalls_def fetchError_def
      count_list_campaignCalls count_list_warnings
      split: option.splits sum.splits prod.splits)

lemmas poll_defs = alwaysPending_def alwaysFailed_def slowPending_def txBody_def
  pendingResponse_def terminal_def nullish_def own_prop_def get_prop_def maxRetries_def
  pollInterval_def firingTime_def afterLookup_def

text \<open>A poll that is rejected leaves the page as it was and ends with the failure notice.\<close>

lemma onFinish_rejected:
  assumes "fst (waitForTransaction (txStatus W)) = Inl e"
  shows "fst (onFinish B W st txId) = st \<and>
         refreshCount (snd (onFinish B W st txId)) = 0 \<and>
         last (snd (onFinish B W st txId)) = Alert failureNotice"
proof -
  obtain checks where "waitForTransaction (txStatus W) = (Inl e, checks)"
    using assms by (cases "waitForTransaction (txStatus W)") simp
  then show ?thesis
    by (simp add: onFinish_def refreshCount_def count_list_0_iff)
qed

text \<open>
  Claim C3, as the code has it. The counter \<^verbatim>\<open>retries\<close> is compared with 15 before it is
  incremented, so the poll settles after at most 16 answers: the first and 15 retries.
  An endpoint that never gives a terminal status ends in the timed-out outcome when its
  16th answer is handled; the page state is then left as it was, no refresh is made, and
  the last thing the user sees is the failure notice. At least 16 lookups have been
  issued by then: exactly 16 when every lookup is answered before the timer fires again,
  and more when lookups are slower, because the timer goes on issuing lookups while
  earlier ones are unanswered.
\<close>

theorem poll_budget:
  "answersHandled endpoint \<le> 16 \<and>
   answersHandled endpoint \<le> snd (waitForTransaction endpoint) \<and>
   ((\<forall>n. pendingResponse (answer (endpoint n))) \<longrightarrow>
      fst (waitForTransaction endpoint) = Inl TimedOut \<and>
      answersHandled endpoint = 16 \<and>
      16 \<le> snd (waitForTransaction endpoint) \<and>
      fst (onFinish B (W\<lparr>txStatus := endpoint\<rparr>) st txId) = st \<and>
      refreshCount (snd (onFinish B (W\<lparr>txStatus := endpoint\<rparr>) st txId)) = 0 \<and>
      last (snd (onFinish B (W\<lparr>txStatus := endpoint\<rparr>) st txId)) = Alert failureNotice) \<and>
   ((\<forall>n. pendingResponse (answer (endpoint n)) \<and> latency (endpoint n) < pollInterval) \<longrightarrow>
      waitForTransaction endpoint = (Inl TimedOut, 16))"
proof -
  obtain outcome issued handled where r: "run endpoint 0 [] 0 = (outcome, issued, handled)"
    by (cases "run endpoint 0 [] 0") auto
  have w: "waitForTransaction endpoint = (outcome, issued)"
    and h: "answersHandled endpoint = handled"
    by (simp_all add: waitForTransaction_def answersHandled_def r)
  have le: "handled \<le> 16"
    using run_handled_le [of 0 endpoint 0 "[]"] by (simp add: r maxRetries_def)
  have hi: "handled \<le> issued"
    using run_handled_le_issued [of 0 0 "[]" endpoint] by (simp add: r)
  have pending: "outcome = Inl TimedOut \<and> handled = 16"
    if "\<forall>n. pendingResponse (answer (endpoint n))"
    using run_pending [of endpoint "[]" 0 0] that by (simp add: r maxRetries_def)
  have fast: "outcome = Inl TimedOut \<and> issued = 16"
    if "\<forall>n. pendingResponse (answer (endpoint n)) \<and> latency (endpoint n) < pollInterval"
    using run_pending_fast [of endpoint 0 0] that by (simp add: r maxRetries_def)
  have fin: "fst (onFinish B (W\<lparr>txStatus := endpoint\<rparr>) st txId) = st \<and>
      refreshCount (snd (onFinish B (W\<lparr>txStatus := endpoint\<rparr>) st txId)) = 0 \<and>
      last (snd (onFinish B (W\<lparr>txStatus := endpoint\<rparr>) st txId)) = Alert failureNotice"
    if "outcome = Inl TimedOut"
    by (rule onFinish_rejected [of _ TimedOut]) (simp add: w that)
  show ?thesis
    using le hi pending fast fin by (auto simp: w h)
qed

text \<open>The theorem on an endpoint that answers in 0.3 s and on one that answers in 6 s.\<close>

theorem poll_budget_witness:
  "pendingResponse (answer (alwaysPending 0)) \<and> latency (alwaysPending 0) < pollInterval \<and>
   waitForTransaction alwaysPending = (Inl TimedOut, 16) \<and>
   answersHandled alwaysPending = 16 \<and>
   pendingResponse (answer (slowPending 0)) \<and>
   fst (waitForTransaction slowPending) = Inl TimedOut \<and>
   answersHandled slowPending = 16 \<and>
   refreshCount (snd (onFinish sampleBuiltins (sampleWorld (WalletFinished ''0xabc'') alwaysPending)
      emptyPage ''0xabc'')) = 0"
  using poll_budget [of alwaysPending sampleBuiltins
      "sampleWorld (WalletFinished ''0xabc'') alwaysPending" emptyPage "''0xabc''"]
    poll_budget [of slowPending sampleBuiltins
      "sampleWorld (WalletFinished ''0xabc'') slowPending" emptyPage "''0xabc''"]
  by (simp add: alwaysPending_def slowPending_def txBody_def pendingResponse_def terminal_def
      nullish_def own_prop_def pollInterval_def sampleWorld_def)

text \<open>
  Against C3 as stated (at most 15 checks): the poll of an endpoint that stays pending
  issues 16 lookups when it answers in 0.3 s, and 17 when it answers in 6 s.
\<close>

theorem poll_sixteen_checks_counterexample:
  "waitForTransaction alwaysPending = (Inl TimedOut, 16) \<and>
   waitForTransaction slowPending = (Inl TimedOut, 17)"
  unfolding waitForTransaction_def
  by (simp add: run.simps poll_defs)

text \<open>
  Claim C1, where the code departs from it. The status \<open>failed\<close> stops the poll at once,
  but by resolving the promise: \<open>onFinish\<close> then runs the refresh (the four statistic
  calls, the page state replaced) and tells the user that the campaign was finalized
  successfully. No failure notice is shown.
\<close>

theorem failed_status_counts_as_success:
  "onFinish sampleBuiltins (sampleWorld (WalletFinished ''0xabc'') alwaysFailed)
      (samplePage ''ST1OWNER'' 150 100) ''0xabc'' =
    (samplePage ''ST1OWNER'' 150 100
       \<lparr> campaigns := [],
         globalStats := \<lparr> totalRaised = Num 5, totalContributors = Num 2,
                          activeCampaigns = Num 0, totalCampaigns = Num 0 \<rparr> \<rparr>,
     [Alert broadcastNotice, StatusCheck ''0xabc'',
      ReadOnlyCall ''get-total-stx'' [], ReadOnlyCall ''get-total-contributors'' [],
      ReadOnlyCall ''get-active-campaigns'' [], ReadOnlyCall ''get-campaign-count'' [],
      Alert successNotice])"
  by (simp add: onFinish_def waitForTransaction_def run.simps poll_defs fetchAllData_def
      quietChain_def statCalls_def campaignCalls_def readStats_def statNumber_def callCount_def
      decodeBatch_def page_defs eval_defs)

text \<open>
  Claim C5. Without a session, or with a session whose address is not strictly equal to
  the owner of the campaign, \<open>handleCloseCampaign\<close> shows a notice and does nothing
  else: the page state is unchanged and nothing reaches the wallet or the network.
  Strict equality of two strings is equality of their characters, so it tells letter
  case apart.
\<close>

theorem close_rejects_unauthorized:
  assumes "user st = None \<or>
           (\<exists>u c. user st = Some u \<and>
                  find (\<lambda>c. id_c c = campaignId) (campaigns st) = Some c \<and>
                  \<not> strict_eq (owner c) (stxAddressTestnet u))"
  shows "handleCloseCampaign B W st campaignId =
           (st, [Alert (if user st = None then ''Please connect your wallet first''
                        else ''Only the campaign owner can finalize this campaign'')]) \<and>
         \<not> list_ex outbound (snd (handleCloseCampaign B W st campaignId)) \<and>
         (\<forall>a b. strict_eq (JString a) (JString b) = (a = b))"
  using assms by (auto simp: handleCloseCampaign_def)

text \<open>The owner is \<^verbatim>\<open>ST1OWNER\<close>, the session is \<^verbatim>\<open>ST1owner\<close>; and a page without session.\<close>

theorem close_rejects_unauthorized_witness:
  "handleCloseCampaign sampleBuiltins (sampleWorld WalletCancelled alwaysPending)
      (samplePage ''ST1owner'' 150 100) 0 =
     (samplePage ''ST1owner'' 150 100,
      [Alert ''Only the campaign owner can finalize this campaign''])
   \<and> handleCloseCampaign sampleBuiltins (sampleWorld WalletCancelled alwaysPending) emptyPage 0 =
     (emptyPage, [Alert ''Please connect your wallet first''])"
  using close_rejects_unauthorized [of "samplePage ''ST1owner'' 150 100" 0 sampleBuiltins
      "sampleWorld WalletCancelled alwaysPending"]
    close_rejects_unauthorized [of emptyPage 0 sampleBuiltins
      "sampleWorld WalletCancelled alwaysPending"]
  by (simp add: page_defs)

lemma submitted_append: "submitted (xs @ ys) = submitted xs @ submitted ys"
  by (induction xs rule: submitted.induct) simp_all

lemma submitted_replicate: "submitted (replicate k (StatusCheck t)) = []"
  by (induction k) simp_all

lemma submitted_campaignCalls: "submitted (campaignCalls n) = []"
  unfolding campaignCalls_def by (induction n) (simp_all add: submitted_append)

lemma submitted_none: "(\<forall>x \<in> set xs. \<forall>c. x \<noteq> ContractCall c) \<Longrightarrow> submitted xs = []"
  by (induction xs rule: submitted.induct) auto

lemma submitted_warnings: "decodeBatch B rs = (cs, ws) \<Longrightarrow> submitted ws = []"
  using decodeBatch_logs [of B rs cs ws] by (intro submitted_none) (auto simp: parseWarning_def)

lemma submitted_fetchAllData: "submitted (snd (fetchAllData B ch st)) = []"
  by (auto simp: fetchAllData_def Let_def statCalls_def fetchError_def submitted_append
      submitted_campaignCalls submitted_warnings split: option.splits sum.splits prod.splits)

lemma submitted_onFinish: "submitted (snd (onFinish B W st txId)) = []"
  using submitted_fetchAllData [of B "chainView W" st]
  by (auto simp: onFinish_def submitted_append submitted_replicate
      split: prod.splits sum.splits)

text \<open>What reaches the wallet is the call that was built, if one was built.\<close>

lemma close_submitted:
  assumes "user st = Some u"
    and "find (\<lambda>c. id_c c = campaignId) (campaigns st) = Some c"
    and "strict_eq (owner c) (stxAddressTestnet u)"
    and "confirmAnswer W"
  shows "submitted (snd (handleCloseCampaign B W st campaignId)) =
     (case buildCall B c (if js_ge (total_c c) (goal c) then ''withdraw-funds''
                          else ''finalize-failure'') campaignId of
        Inl e \<Rightarrow> []
      | Inr call \<Rightarrow> [call])"
proof -
  have "submitted evs = []" if "onFinish B W st' txId = (st'', evs)" for st' txId st'' evs
    using submitted_onFinish [of B W st' txId] that by simp
  then show ?thesis
    using assms
    by (auto simp: handleCloseCampaign_def Let_def
        split: wallet_outcome.splits prod.splits sum.splits)
qed

lemma digit_char_is_digit: "n < 10 \<Longrightarrow> is_digit (digit_char n)"
proof -
  assume "n < 10"
  then have "n \<in> {0, 1, 2, 3, 4, 5, 6, 7, 8, 9}" by auto
  then show ?thesis by (auto simp: digit_char_def is_digit_def)
qed

lemma digits_all_digits: "list_all is_digit (digits n)"
proof (induction n rule: digits.induct)
  case (1 n)
  show ?case
  proof (cases "n < 10")
    case True
    then show ?thesis by (subst digits.simps) (simp add: digit_char_is_digit)
  next
    case False
    with "1.IH" show ?thesis
      by (subst digits.simps) (simp add: digit_char_is_digit)
  qed
qed

text \<open>The amount of the guarantee for a micro amount that a chain amount gives.\<close>

lemma cap_rendering:
  assumes "0 \<le> p" and "round p < 10 ^ 21"
  shows "numberToString B (js_max (Num 0) (js_round (Num p))) = intToString (round p)"
    and "list_all is_digit (intToString (round p))"
proof -
  have nn: "0 \<le> round p" using assms(1) by (simp add: round_def)
  have "js_max (Num 0) (js_round (Num p)) = Num (of_int (round p))"
    using nn by (simp add: js_max_def js_round_def round_def max_def)
  moreover have "\<bar>(of_int (round p) :: rat)\<bar> < 10 ^ 21"
  proof -
    have "(of_int (round p) :: rat) < of_int (10 ^ 21)"
      using assms(2) by (simp only: of_int_less_iff)
    then show ?thesis using nn by simp
  qed
  ultimately show "numberToString B (js_max (Num 0) (js_round (Num p))) = intToString (round p)"
    by (simp add: numberToString_def)
  show "list_all is_digit (intToString (round p))"
    using nn by (simp add: intToString_def digits_all_digits)
qed

lemma buildCall_withdraw:
  assumes "chainAmount B (Num t)"
  shows "buildCall B c ''withdraw-funds'' campaignId =
     (if total_c c = Num t then
       Inr \<lparr> functionName = ''withdraw-funds'', functionArgs = [campaignId],
             postConditionModeAllow = True,
             postConditions = [ContractSTXLessEqual (intToString (round (product B t 1000000)))] \<rparr>
      else buildCall B c ''withdraw-funds'' campaignId)"
  using assms cap_rendering [where p = "product B t 1000000"]
  by (auto simp: buildCall_def chainAmount_def microAmount_def js_times_def
      makeContractSTXPostCondition_def)

lemma buildCall_failure:
  "buildCall B c ''finalize-failure'' campaignId =
     Inr \<lparr> functionName = ''finalize-failure'', functionArgs = [campaignId],
           postConditionModeAllow = False, postConditions = [] \<rparr>"
  by (simp add: buildCall_def)

text \<open>
  Claim C4. Once the owner has confirmed, exactly one contract call is handed to the
  wallet, and which one depends only on whether total raised \<open>\<ge>\<close> goal. When it is,
  the call is \<^verbatim>\<open>withdraw-funds\<close> with one condition: the contract transfers at most
  (total raised \<open>\<times>\<close> 1,000,000), the product as the page computes it, rounded to the
  nearest integer and written in decimal. When it is not, the call is
  \<^verbatim>\<open>finalize-failure\<close> with no condition. This is for the totals the chain gives, whose
  micro amount is not negative and below \<open>10\<^sup>2\<^sup>1\<close>: there the clamp
  \<^verbatim>\<open>Math.max(0, ...)\<close> changes nothing and the library takes the amount.
\<close>

theorem close_submits_by_outcome:
  assumes "user st = Some u"
    and "find (\<lambda>c. id_c c = campaignId) (campaigns st) = Some c"
    and "strict_eq (owner c) (stxAddressTestnet u)"
    and "confirmAnswer W"
    and "js_ge (total_c c) (goal c) \<Longrightarrow> chainAmount B (total_c c)"
  shows "submitted (snd (handleCloseCampaign B W st campaignId)) =
     [if js_ge (total_c c) (goal c)
      then \<lparr> functionName = ''withdraw-funds'', functionArgs = [campaignId],
             postConditionModeAllow = True,
             postConditions =
               [ContractSTXLessEqual (intToString (round (microAmount B (total_c c))))] \<rparr>
      else \<lparr> functionName = ''finalize-failure'', functionArgs = [campaignId],
             postConditionModeAllow = False, postConditions = [] \<rparr>]"
proof (cases "js_ge (total_c c) (goal c)")
  case True
  then obtain t where t: "total_c c = Num t"
    by (cases "total_c c") (auto simp: js_ge_def js_le_def split: jsnum.splits)
  with assms(5) [OF True] have "buildCall B c ''withdraw-funds'' campaignId =
       Inr \<lparr> functionName = ''withdraw-funds'', functionArgs = [campaignId],
             postConditionModeAllow = True,
             postConditions =
               [ContractSTXLessEqual (intToString (round (product B t 1000000)))] \<rparr>"
    using buildCall_withdraw [of B t c campaignId] by simp
  with True t show ?thesis
    using close_submitted [OF assms(1-4), of B] by (simp add: microAmount_def)
next
  case False
  then show ?thesis
    using close_submitted [OF assms(1-4), of B] by (simp add: buildCall_failure)
qed

lemmas num_defs = js_ge_def js_le_def js_max_def js_round_def js_times_def numberToString_def
  intToString_def digits.simps digit_char_def chainAmount_def microAmount_def

text \<open>Total 150 against goal 100, and total 50 against goal 100.\<close>

theorem close_submits_by_outcome_witness:
  "chainAmount sampleBuiltins (Num 150) \<and> chainAmount sampleBuiltins (Num 50) \<and>
   submitted (snd (handleCloseCampaign sampleBuiltins (sampleWorld WalletCancelled alwaysPending)
      (samplePage ''ST1OWNER'' 150 100) 0)) =
     [\<lparr> functionName = ''withdraw-funds'', functionArgs = [0], postConditionModeAllow = True,
        postConditions = [ContractSTXLessEqual ''150000000''] \<rparr>] \<and>
   submitted (snd (handleCloseCampaign sampleBuiltins (sampleWorld WalletCancelled alwaysPending)
      (samplePage ''ST1OWNER'' 50 100) 0)) =
     [\<lparr> functionName = ''finalize-failure'', functionArgs = [0], postConditionModeAllow = False,
        postConditions = [] \<rparr>]"
  using close_submits_by_outcome [of "samplePage ''ST1OWNER'' 150 100"
       "\<lparr> stxAddressTestnet = JString ''ST1OWNER'' \<rparr>" 0
       "sampleCampaign 150 100" "sampleWorld WalletCancelled alwaysPending" sampleBuiltins]
    close_submits_by_outcome [of "samplePage ''ST1OWNER'' 50 100"
       "\<lparr> stxAddressTestnet = JString ''ST1OWNER'' \<rparr>" 0
       "sampleCampaign 50 100" "sampleWorld WalletCancelled alwaysPending" sampleBuiltins]
  by (simp add: page_defs num_defs sampleBuiltins_def)

text \<open>
  A micro amount of \<open>10\<^sup>2\<^sup>1\<close> or more is not written in decimal digits; the library
  throws, nothing reaches the wallet and the user is told that closing failed.
\<close>

lemma close_amount_refused:
  assumes "user st = Some u"
    and "find (\<lambda>c. id_c c = campaignId) (campaigns st) = Some c"
    and "strict_eq (owner c) (stxAddressTestnet u)"
    and "confirmAnswer W"
    and "buildCall B c (if js_ge (total_c c) (goal c) then ''withdraw-funds''
                        else ''finalize-failure'') campaignId = Inl e"
  shows "handleCloseCampaign B W st campaignId =
     (st\<lparr>closingCampaign := None\<rparr>,
      [Confirm withdrawPrompt, ConsoleError ''Failed to finalize campaign:'' e,
       Alert ''Failed to finalize campaign. Please try again.''])"
proof -
  have "js_ge (total_c c) (goal c)"
    using assms(5) by (auto simp: buildCall_failure split: if_splits)
  then show ?thesis
    using assms by (simp add: handleCloseCampaign_def Let_def)
qed

text \<open>
  A total decoded from a string that reads as a number that is not negative (a chain
  amount is an unsigned integer) is not negative.
\<close>

lemma decoded_total_not_negative:
  assumes "parseCampaign B j i = Inr c"
    and "fieldValue j ''total'' = JString s"
    and "strToNum B s = Num n" and "0 \<le> n"
  shows "total_c c = Num (n / 1000000) \<and> 0 \<le> n / 1000000"
proof -
  have "jNum B (own_prop (rawStruct j) ''total'') = Inr (Num n)"
    using assms(2,3) by (simp add: jNum_def fieldValue_def nullish_or_def nullish_def toNumber_def)
  with assms(1) show ?thesis
    unfolding parseCampaign_Inr_iff using assms(4) by (auto simp: div_by_def)
qed

end
